theory Spec2Isabelle
  imports Complex_Main "HOL-Library.Sublist"
begin

section \<open>Strings\<close>

text \<open>
  JavaScript strings are modelled as \<^typ>\<open>string\<close> (lists of characters). A value that
  may be \<^verbatim>\<open>undefined\<close> or \<^verbatim>\<open>null\<close> is a \<^typ>\<open>string option\<close>; the empty
  string and the missing value are the two falsy strings.
\<close>

definition dq :: string where
  "dq = [CHR 0x22]"

definition sq :: string where
  "sq = [CHR 0x27]"

definition truthy_str :: "string option \<Rightarrow> bool" where
  "truthy_str v = (case v of None \<Rightarrow> False | Some s \<Rightarrow> s \<noteq> [])"

text \<open>\<^verbatim>\<open>s.replace(/c/g, rep)\<close> for a pattern that is the single character \<open>c\<close>.\<close>

definition replace_char :: "char \<Rightarrow> string \<Rightarrow> string \<Rightarrow> string" where
  "replace_char c rep s = concat (map (\<lambda>x. if x = c then rep else [x]) s)"

section \<open>escapeHtml (content.js and the background script)\<close>

text \<open>
  \<^verbatim>\<open>if (!text) return ''; return String(text).replace(/&/g, '&amp;').replace(/</g, '&lt;')
  .replace(/>/g, '&gt;').replace(/"/g, '&quot;').replace(/'/g, '&#039;');\<close>
  The five replacements run one after the other, each over the result of the previous one.
\<close>

definition escapeHtml :: "string option \<Rightarrow> string" where
  "escapeHtml text =
     (if \<not> truthy_str text then []
      else replace_char (CHR 0x27) ''&#039;''
            (replace_char (CHR 0x22) ''&quot;''
              (replace_char (CHR ''>'') ''&gt;''
                (replace_char (CHR ''<'') ''&lt;''
                  (replace_char (CHR ''&'') ''&amp;'' (the text))))))"

text \<open>The copy in content.js calls \<^verbatim>\<open>text.replace\<close> directly; on strings it is the same chain.\<close>

definition content_escapeHtml :: "string option \<Rightarrow> string" where
  "content_escapeHtml text =
     (if \<not> truthy_str text then []
      else replace_char (CHR 0x27) ''&#039;''
            (replace_char (CHR 0x22) ''&quot;''
              (replace_char (CHR ''>'') ''&gt;''
                (replace_char (CHR ''<'') ''&lt;''
                  (replace_char (CHR ''&'') ''&amp;'' (the text))))))"

definition html_entities :: "string list" where
  "html_entities = [''&amp;'', ''&lt;'', ''&gt;'', ''&quot;'', ''&#039;'']"

text \<open>Every ampersand of a string is the first character of one of the five entities.\<close>

fun amps_start_entity :: "string \<Rightarrow> bool" where
  "amps_start_entity [] = True"
| "amps_start_entity (c # cs) =
     ((c \<noteq> CHR ''&'' \<or> list_ex (\<lambda>e. prefix e (c # cs)) html_entities) \<and> amps_start_entity cs)"

text \<open>The replacement of one source character after all five passes.\<close>

definition esc_char :: "char \<Rightarrow> string" where
  "esc_char c =
     (if c = CHR ''&'' then ''&amp;''
      else if c = CHR ''<'' then ''&lt;''
      else if c = CHR ''>'' then ''&gt;''
      else if c = CHR 0x22 then ''&quot;''
      else if c = CHR 0x27 then ''&#039;''
      else [c])"

section \<open>Regular expressions of the post-assembly pass\<close>

text \<open>
  The patterns of \<^verbatim>\<open>sanitizeClippedHtml\<close> are embedded as values of a small regular
  expression type, matched by a backtracking matcher in the priority order of the
  JavaScript engine: a greedy star tries one more iteration before it tries to stop, and
  the first complete match in that order is the match. A position of the input is the
  character before it (for the word boundary) and the rest of the input.
\<close>

datatype regex =
    Sym "char \<Rightarrow> bool"
  | Eps
  | Seq regex regex
  | Star regex
  | NotAhead regex
  | WordBoundary

type_synonym position = "char option \<times> string"

definition is_word_char :: "char \<Rightarrow> bool" where
  "is_word_char c =
     (let n = (of_char c :: nat)
      in (97 \<le> n \<and> n \<le> 122) \<or> (65 \<le> n \<and> n \<le> 90) \<or> (48 \<le> n \<and> n \<le> 57) \<or> n = 95)"

text \<open>White space of \<^verbatim>\<open>\s\<close> and of \<^verbatim>\<open>trim()\<close>, among the characters below 256.\<close>

definition is_space :: "char \<Rightarrow> bool" where
  "is_space c = (let n = (of_char c :: nat) in (9 \<le> n \<and> n \<le> 13) \<or> n = 32 \<or> n = 160)"

definition to_lower :: "char \<Rightarrow> char" where
  "to_lower c =
     (let n = (of_char c :: nat)
      in if 65 \<le> n \<and> n \<le> 90 then ''abcdefghijklmnopqrstuvwxyz'' ! (n - 65) else c)"

definition to_upper :: "char \<Rightarrow> char" where
  "to_upper c =
     (let n = (of_char c :: nat)
      in if 97 \<le> n \<and> n \<le> 122 then ''ABCDEFGHIJKLMNOPQRSTUVWXYZ'' ! (n - 97) else c)"

definition toLowerCase :: "string \<Rightarrow> string" where
  "toLowerCase s = map to_lower s"

definition toUpperCase :: "string \<Rightarrow> string" where
  "toUpperCase s = map to_upper s"

definition trim :: "string \<Rightarrow> string" where
  "trim s = rev (dropWhile is_space (rev (dropWhile is_space s)))"

definition startsWith :: "string \<Rightarrow> string \<Rightarrow> bool" where
  "startsWith s p = prefix p s"

definition word_before :: "char option \<Rightarrow> bool" where
  "word_before p = (case p of None \<Rightarrow> False | Some c \<Rightarrow> is_word_char c)"

definition word_after :: "string \<Rightarrow> bool" where
  "word_after s = (case s of [] \<Rightarrow> False | c # _ \<Rightarrow> is_word_char c)"

text \<open>
  All the ways the expression matches at a position, best first; each is the position
  after the match. An iteration of a star that consumes nothing is dropped, as the
  language does.
\<close>

function rmatch :: "regex \<Rightarrow> position \<Rightarrow> position list" where
  "rmatch (Sym p) st = (case snd st of [] \<Rightarrow> [] | c # cs \<Rightarrow> if p c then [(Some c, cs)] else [])"
| "rmatch Eps st = [st]"
| "rmatch (Seq a b) st = concat (map (rmatch b) (rmatch a st))"
| "rmatch (Star a) st =
     concat (map (\<lambda>st'. if length (snd st') < length (snd st) then rmatch (Star a) st' else [])
                 (rmatch a st)) @ [st]"
| "rmatch (NotAhead a) st = (if rmatch a st = [] then [st] else [])"
| "rmatch WordBoundary st = (if word_before (fst st) \<noteq> word_after (snd st) then [st] else [])"
  by pat_completeness auto
termination
  by (relation "measure size <*lex*> measure (\<lambda>st. length (snd st))") auto

declare rmatch.simps [simp del]

definition first_match :: "regex \<Rightarrow> position \<Rightarrow> position option" where
  "first_match r st = (case rmatch r st of [] \<Rightarrow> None | m # _ \<Rightarrow> Some m)"

text \<open>
  \<^verbatim>\<open>s.replace(/r/g, rep)\<close>: the matches are looked for from left to right, each search
  starting where the previous match ended (one character further after an empty match);
  the text between the matches is kept.
\<close>

function replace_re :: "regex \<Rightarrow> string \<Rightarrow> position \<Rightarrow> string" where
  "replace_re r rep st =
     (case first_match r st of
        Some (p', rest') \<Rightarrow>
          (if length rest' < length (snd st) then rep @ replace_re r rep (p', rest')
           else (case snd st of [] \<Rightarrow> rep | c # cs \<Rightarrow> rep @ c # replace_re r rep (Some c, cs)))
      | None \<Rightarrow> (case snd st of [] \<Rightarrow> [] | c # cs \<Rightarrow> c # replace_re r rep (Some c, cs)))"
  by pat_completeness auto
termination
  by (relation "measure (\<lambda>(r, rep, st). length (snd st))") auto

declare replace_re.simps [simp del]

definition replaceAll_re :: "regex \<Rightarrow> string \<Rightarrow> string \<Rightarrow> string" where
  "replaceAll_re r rep s = replace_re r rep (None, s)"

text \<open>One character, compared without case (the \<^verbatim>\<open>i\<close> flag), and a literal so compared.\<close>

definition ci :: "char \<Rightarrow> regex" where
  "ci x = Sym (\<lambda>c. to_lower c = to_lower x)"

definition lit_ci :: "string \<Rightarrow> regex" where
  "lit_ci s = foldr (\<lambda>c r. Seq (ci c) r) s Eps"

definition Plus :: "regex \<Rightarrow> regex" where
  "Plus r = Seq r (Star r)"

definition is_quote :: "char \<Rightarrow> bool" where
  "is_quote c = (c = CHR 0x22 \<or> c = CHR 0x27)"

text \<open>\<^verbatim>\<open>/<script\b[^<]*(?:(?!<\/script>)<[^<]*)*<\/script>/gi\<close>\<close>

definition re_script_block :: regex where
  "re_script_block =
     Seq (lit_ci ''<script'')
      (Seq WordBoundary
        (Seq (Star (Sym (\<lambda>c. c \<noteq> CHR ''<'')))
          (Seq (Star (Seq (NotAhead (lit_ci ''</script>''))
                       (Seq (Sym (\<lambda>c. c = CHR ''<'')) (Star (Sym (\<lambda>c. c \<noteq> CHR ''<''))))))
            (lit_ci ''</script>''))))"

text \<open>\<^verbatim>\<open>/on\w+\s*=\s*["'][^"']*["']/gi\<close>\<close>

definition re_handler_quoted :: regex where
  "re_handler_quoted =
     Seq (lit_ci ''on'')
      (Seq (Plus (Sym is_word_char))
        (Seq (Star (Sym is_space))
          (Seq (Sym (\<lambda>c. c = CHR ''=''))
            (Seq (Star (Sym is_space))
              (Seq (Sym is_quote)
                (Seq (Star (Sym (\<lambda>c. \<not> is_quote c))) (Sym is_quote)))))))"

text \<open>\<^verbatim>\<open>/on\w+\s*=\s*[^\s>]*/gi\<close>\<close>

definition re_handler_bare :: regex where
  "re_handler_bare =
     Seq (lit_ci ''on'')
      (Seq (Plus (Sym is_word_char))
        (Seq (Star (Sym is_space))
          (Seq (Sym (\<lambda>c. c = CHR ''=''))
            (Seq (Star (Sym is_space))
              (Star (Sym (\<lambda>c. \<not> is_space c \<and> c \<noteq> CHR ''>'')))))))"

section \<open>sanitizeClippedHtml (background script)\<close>

text \<open>
  \<^verbatim>\<open>if (!html) return '';\<close> and then the five replacements by the empty string, in the
  order of the source: script blocks, quoted handlers, unquoted handlers,
  \<^verbatim>\<open>javascript:\<close>, \<^verbatim>\<open>vbscript:\<close>. Each is one pass over the result of the one before.
\<close>

definition sanitizeClippedHtml :: "string option \<Rightarrow> string" where
  "sanitizeClippedHtml html =
     (if \<not> truthy_str html then []
      else replaceAll_re (lit_ci ''vbscript:'') []
            (replaceAll_re (lit_ci ''javascript:'') []
              (replaceAll_re re_handler_bare []
                (replaceAll_re re_handler_quoted []
                  (replaceAll_re re_script_block [] (the html))))))"

text \<open>The substring test the claims about the output use, without case.\<close>

definition contains_ci :: "string \<Rightarrow> string \<Rightarrow> bool" where
  "contains_ci needle s = list_ex (\<lambda>t. prefix (toLowerCase needle) (toLowerCase t)) (suffixes s)"

section \<open>The page: DOM fragments and the browser\<close>

text \<open>
  A DOM fragment is a list of nodes. An element has its local name (lower case, as the HTML
  parser leaves it), its attributes in order, and its children. What the browser does and
  the repository only calls is a parameter: \<open>parseHtml\<close> is the fragment parser behind
  \<^verbatim>\<open>div.innerHTML = html\<close>, and \<open>resolveUrl\<close> is
  \<^verbatim>\<open>new URL(value, window.location.href).href\<close>, \<open>None\<close> when it throws.
\<close>

datatype node =
    Element string "(string \<times> string) list" "node list"
  | Text string
  | Comment string

record browser =
  parseHtml :: "string \<Rightarrow> node list"
  resolveUrl :: "string \<Rightarrow> string option"

fun hasAttribute :: "(string \<times> string) list \<Rightarrow> string \<Rightarrow> bool" where
  "hasAttribute attrs name = (map_of attrs name \<noteq> None)"

fun getAttribute :: "(string \<times> string) list \<Rightarrow> string \<Rightarrow> string" where
  "getAttribute attrs name = (case map_of attrs name of None \<Rightarrow> [] | Some v \<Rightarrow> v)"

fun removeAttribute :: "(string \<times> string) list \<Rightarrow> string \<Rightarrow> (string \<times> string) list" where
  "removeAttribute attrs name = filter (\<lambda>a. fst a \<noteq> name) attrs"

fun setAttribute :: "(string \<times> string) list \<Rightarrow> string \<Rightarrow> string \<Rightarrow> (string \<times> string) list" where
  "setAttribute [] name v = [(name, v)]"
| "setAttribute (a # attrs) name v =
     (if fst a = name then (name, v) # attrs else a # setAttribute attrs name v)"

text \<open>\<^verbatim>\<open>root.querySelectorAll(tag).forEach(el => el.remove())\<close> on the children of a root.\<close>

fun remove_elements :: "string \<Rightarrow> node list \<Rightarrow> node list" where
  "remove_elements tag [] = []"
| "remove_elements tag (Element t attrs kids # ns) =
     (if t = tag then remove_elements tag ns
      else Element t attrs (remove_elements tag kids) # remove_elements tag ns)"
| "remove_elements tag (Text s # ns) = Text s # remove_elements tag ns"
| "remove_elements tag (Comment s # ns) = Comment s # remove_elements tag ns"

definition remove_all_tags :: "string list \<Rightarrow> node list \<Rightarrow> node list" where
  "remove_all_tags tags ns = foldl (\<lambda>acc tag. remove_elements tag acc) ns tags"

fun textContent :: "node \<Rightarrow> string" where
  "textContent (Element t attrs kids) = concat (map textContent kids)"
| "textContent (Text s) = s"
| "textContent (Comment s) = []"

text \<open>\<^verbatim>\<open>el.querySelector('img')\<close> is not null: some descendant is an \<open>img\<close> element.\<close>

fun has_descendant :: "string \<Rightarrow> node list \<Rightarrow> bool" where
  "has_descendant tag [] = False"
| "has_descendant tag (Element t attrs kids # ns) =
     (t = tag \<or> has_descendant tag kids \<or> has_descendant tag ns)"
| "has_descendant tag (Text s # ns) = has_descendant tag ns"
| "has_descendant tag (Comment s # ns) = has_descendant tag ns"

subsection \<open>innerHTML\<close>

text \<open>
  Modelled from the HTML standard (fragment serialisation), which the browser implements:
  text is escaped unless its parent is a raw text element, attribute values are escaped and
  double-quoted, void elements have no end tag.
\<close>

definition void_elements :: "string list" where
  "void_elements = [''area'', ''base'', ''basefont'', ''bgsound'', ''br'', ''col'', ''embed'',
     ''frame'', ''hr'', ''img'', ''input'', ''keygen'', ''link'', ''meta'', ''param'', ''source'',
     ''track'', ''wbr'']"

definition raw_text_elements :: "string list" where
  "raw_text_elements = [''style'', ''script'', ''xmp'', ''iframe'', ''noembed'', ''noframes'',
     ''plaintext'', ''noscript'']"

definition escape_text :: "string \<Rightarrow> string" where
  "escape_text s =
     replace_char (CHR ''>'') ''&gt;''
       (replace_char (CHR ''<'') ''&lt;''
         (replace_char (CHR 0xA0) ''&nbsp;'' (replace_char (CHR ''&'') ''&amp;'' s)))"

definition escape_attr :: "string \<Rightarrow> string" where
  "escape_attr s =
     replace_char (CHR ''>'') ''&gt;''
       (replace_char (CHR ''<'') ''&lt;''
         (replace_char (CHR 0x22) ''&quot;''
           (replace_char (CHR 0xA0) ''&nbsp;'' (replace_char (CHR ''&'') ''&amp;'' s))))"

definition serialize_attr :: "string \<times> string \<Rightarrow> string" where
  "serialize_attr a = '' '' @ fst a @ ''='' @ dq @ escape_attr (snd a) @ dq"

fun serialize_node :: "string \<Rightarrow> node \<Rightarrow> string" where
  "serialize_node parent (Element t attrs kids) =
     ''<'' @ t @ concat (map serialize_attr attrs) @ ''>'' @
     (if t \<in> set void_elements then []
      else concat (map (serialize_node t) kids) @ ''</'' @ t @ ''>'')"
| "serialize_node parent (Text s) = (if parent \<in> set raw_text_elements then s else escape_text s)"
| "serialize_node parent (Comment s) = ''<!--'' @ s @ ''-->''"

definition innerHTML :: "string \<Rightarrow> node list \<Rightarrow> string" where
  "innerHTML parent kids = concat (map (serialize_node parent) kids)"

section \<open>cleanHtml (content.js)\<close>

definition dangerousTags :: "string list" where
  "dangerousTags = [''script'', ''style'', ''iframe'', ''object'', ''embed'',
     ''link'', ''meta'', ''base'', ''form'', ''input'', ''button'',
     ''textarea'', ''select'', ''applet'', ''audio'', ''video'']"

definition safeAttrs :: "string list" where
  "safeAttrs = [''href'', ''src'', ''alt'', ''title'']"

text \<open>
  \<^verbatim>\<open>Array.from(el.attributes).forEach(attr => { if (attr.name.startsWith('on') ||
  !safeAttrs.includes(attr.name)) el.removeAttribute(attr.name); })\<close>
\<close>

definition strip_attributes :: "(string \<times> string) list \<Rightarrow> (string \<times> string) list" where
  "strip_attributes attrs =
     foldl (\<lambda>acc a. if startsWith (fst a) ''on'' \<or> fst a \<notin> set safeAttrs
                     then removeAttribute acc (fst a) else acc) attrs attrs"

definition sanitize_href :: "browser \<Rightarrow> (string \<times> string) list \<Rightarrow> (string \<times> string) list" where
  "sanitize_href b attrs =
     (if hasAttribute attrs ''href'' then
        (let href = getAttribute attrs ''href''; lowerHref = trim (toLowerCase href)
         in if startsWith lowerHref ''javascript:'' \<or> startsWith lowerHref ''data:''
               \<or> startsWith lowerHref ''vbscript:'' \<or> startsWith lowerHref ''file:''
            then removeAttribute attrs ''href''
            else if \<not> startsWith href ''http://'' \<and> \<not> startsWith href ''https://''
                    \<and> \<not> startsWith href ''#''
            then (case resolveUrl b href of
                    Some u \<Rightarrow> setAttribute attrs ''href'' u
                  | None \<Rightarrow> removeAttribute attrs ''href'')
            else attrs)
      else attrs)"

definition sanitize_src :: "browser \<Rightarrow> (string \<times> string) list \<Rightarrow> (string \<times> string) list" where
  "sanitize_src b attrs =
     (if hasAttribute attrs ''src'' then
        (let src = getAttribute attrs ''src''; lowerSrc = trim (toLowerCase src)
         in if startsWith lowerSrc ''http://'' \<or> startsWith lowerSrc ''https://'' then attrs
            else if startsWith lowerSrc ''data:image/'' then attrs
            else (case resolveUrl b src of
                    Some u \<Rightarrow> setAttribute attrs ''src'' u
                  | None \<Rightarrow> removeAttribute attrs ''src''))
      else attrs)"

definition sanitize_attributes :: "browser \<Rightarrow> (string \<times> string) list \<Rightarrow> (string \<times> string) list" where
  "sanitize_attributes b attrs = sanitize_src b (sanitize_href b (strip_attributes attrs))"

text \<open>\<^verbatim>\<open>div.querySelectorAll('*').forEach(el => { ... })\<close>: every element, its attributes.\<close>

fun sanitize_elements :: "browser \<Rightarrow> node list \<Rightarrow> node list" where
  "sanitize_elements b [] = []"
| "sanitize_elements b (Element t attrs kids # ns) =
     Element t (sanitize_attributes b attrs) (sanitize_elements b kids) # sanitize_elements b ns"
| "sanitize_elements b (Text s # ns) = Text s # sanitize_elements b ns"
| "sanitize_elements b (Comment s # ns) = Comment s # sanitize_elements b ns"

text \<open>
  \<^verbatim>\<open>if (el.textContent.trim() === '' && !el.querySelector('img') && el.tagName !== 'IMG')
  el.remove();\<close> over the elements in document order. An element is visited before its
  descendants, and removing an element changes no other element's subtree, so each
  element is judged on its own subtree as the attribute pass left it.
\<close>

definition is_empty_element :: "string \<Rightarrow> node list \<Rightarrow> bool" where
  "is_empty_element t kids =
     (trim (concat (map textContent kids)) = [] \<and> \<not> has_descendant ''img'' kids
      \<and> toUpperCase t \<noteq> ''IMG'')"

fun remove_empty :: "node list \<Rightarrow> node list" where
  "remove_empty [] = []"
| "remove_empty (Element t attrs kids # ns) =
     (if is_empty_element t kids then remove_empty ns
      else Element t attrs (remove_empty kids) # remove_empty ns)"
| "remove_empty (Text s # ns) = Text s # remove_empty ns"
| "remove_empty (Comment s # ns) = Comment s # remove_empty ns"

text \<open>The three passes over the parsed fragment, and \<^verbatim>\<open>cleanHtml\<close> on the string.\<close>

definition clean_fragment :: "browser \<Rightarrow> node list \<Rightarrow> node list" where
  "clean_fragment b ns = remove_empty (sanitize_elements b (remove_all_tags dangerousTags ns))"

definition cleanHtml :: "browser \<Rightarrow> string \<Rightarrow> string" where
  "cleanHtml b html = innerHTML ''div'' (clean_fragment b (parseHtml b html))"

text \<open>Every element of a fragment, at any depth, satisfies a predicate on tag and attributes.\<close>

fun all_elements :: "(string \<Rightarrow> (string \<times> string) list \<Rightarrow> bool) \<Rightarrow> node list \<Rightarrow> bool" where
  "all_elements P [] = True"
| "all_elements P (Element t attrs kids # ns) = (P t attrs \<and> all_elements P kids \<and> all_elements P ns)"
| "all_elements P (Text s # ns) = all_elements P ns"
| "all_elements P (Comment s # ns) = all_elements P ns"

definition safe_attribute_names :: "(string \<times> string) list \<Rightarrow> bool" where
  "safe_attribute_names attrs = list_all (\<lambda>a. fst a \<in> set safeAttrs \<and> \<not> startsWith (fst a) ''on'') attrs"

section \<open>Content extraction (content.js)\<close>

record captured =
  cap_html :: string
  cap_text :: string

text \<open>
  The page as the content script reads it: the selection (\<open>None\<close> when
  \<^verbatim>\<open>window.getSelection()\<close> is null) with its string and the clone of its first range,
  the document element, whether the document is in quirks mode, the location and the
  title.
\<close>

record selection =
  sel_toString :: string
  sel_cloneContents :: "node list"

record page =
  getSelection :: "selection option"
  documentElement :: node
  quirks_mode :: bool
  location_href :: string
  document_title :: string

datatype js_error = JsError string string

fun err_name :: "js_error \<Rightarrow> string" where
  "err_name (JsError n m) = n"

fun err_message :: "js_error \<Rightarrow> string" where
  "err_message (JsError n m) = m"

definition VALID_CONTENT_TYPES :: "string list" where
  "VALID_CONTENT_TYPES = [''selection'', ''full-page'', ''url-only'']"

definition getSelectedContent :: "browser \<Rightarrow> page \<Rightarrow> captured option" where
  "getSelectedContent b pg =
     (case getSelection pg of
        None \<Rightarrow> None
      | Some sel \<Rightarrow>
          if trim (sel_toString sel) = [] then None
          else Some \<lparr>cap_html = cleanHtml b (innerHTML ''div'' (sel_cloneContents sel)),
                     cap_text = sel_toString sel\<rparr>)"

text \<open>\<^verbatim>\<open>document.querySelector\<close>: the first element in document order that matches.\<close>

fun find_first :: "(string \<Rightarrow> (string \<times> string) list \<Rightarrow> bool) \<Rightarrow> node list \<Rightarrow> node option" where
  "find_first P [] = None"
| "find_first P (Element t attrs kids # ns) =
     (if P t attrs then Some (Element t attrs kids)
      else (case find_first P kids of Some n \<Rightarrow> Some n | None \<Rightarrow> find_first P ns))"
| "find_first P (Text s # ns) = find_first P ns"
| "find_first P (Comment s # ns) = find_first P ns"

text \<open>The class attribute is a set of tokens separated by ASCII white space.\<close>

definition is_ascii_space :: "char \<Rightarrow> bool" where
  "is_ascii_space c = (let n = (of_char c :: nat) in n = 9 \<or> n = 10 \<or> n = 12 \<or> n = 13 \<or> n = 32)"

fun tokens_from :: "string \<Rightarrow> string \<Rightarrow> string list" where
  "tokens_from cur [] = (if cur = [] then [] else [cur])"
| "tokens_from cur (c # cs) =
     (if is_ascii_space c then (if cur = [] then [] else [cur]) @ tokens_from [] cs
      else tokens_from (cur @ [c]) cs)"

definition sel_tag :: "string \<Rightarrow> string \<Rightarrow> (string \<times> string) list \<Rightarrow> bool" where
  "sel_tag tag t attrs = (t = tag)"

definition sel_attr :: "string \<Rightarrow> string \<Rightarrow> string \<Rightarrow> (string \<times> string) list \<Rightarrow> bool" where
  "sel_attr name v t attrs = (map_of attrs name = Some v)"

text \<open>
  Class and id selectors compare exactly, except in a quirks-mode document, where they
  compare without regard to the case of ASCII letters.
\<close>

definition same_name :: "bool \<Rightarrow> string \<Rightarrow> string \<Rightarrow> bool" where
  "same_name quirks a b = (if quirks then toLowerCase a = toLowerCase b else a = b)"

definition sel_class :: "bool \<Rightarrow> string \<Rightarrow> string \<Rightarrow> (string \<times> string) list \<Rightarrow> bool" where
  "sel_class quirks cls t attrs =
     list_ex (same_name quirks cls) (tokens_from [] (getAttribute attrs ''class''))"

definition sel_id :: "bool \<Rightarrow> string \<Rightarrow> string \<Rightarrow> (string \<times> string) list \<Rightarrow> bool" where
  "sel_id quirks v t attrs =
     (case map_of attrs ''id'' of None \<Rightarrow> False | Some i \<Rightarrow> same_name quirks v i)"

definition children :: "node \<Rightarrow> node list" where
  "children n = (case n of Element t attrs kids \<Rightarrow> kids | Text s \<Rightarrow> [] | Comment s \<Rightarrow> [])"

definition tag_of :: "node \<Rightarrow> string" where
  "tag_of n = (case n of Element t attrs kids \<Rightarrow> t | Text s \<Rightarrow> [] | Comment s \<Rightarrow> [])"

text \<open>\<^verbatim>\<open>document.body\<close>: the first \<open>body\<close> child of the document element.\<close>

definition document_body :: "page \<Rightarrow> node option" where
  "document_body pg = find (\<lambda>n. tag_of n = ''body'') (children (documentElement pg))"

definition first_some :: "'a option list \<Rightarrow> 'a option" where
  "first_some xs = (case filter (\<lambda>x. x \<noteq> None) xs of [] \<Rightarrow> None | x # _ \<Rightarrow> x)"

text \<open>
  \<^verbatim>\<open>getFullPageContent\<close>; cloning a missing body throws (the \<open>Inl\<close>), which the
  message handler catches.
\<close>

definition getFullPageContent :: "browser \<Rightarrow> page \<Rightarrow> js_error + captured option" where
  "getFullPageContent b pg =
     (let doc = [documentElement pg];
          mainContent = first_some
            [find_first (sel_tag ''main'') doc,
             find_first (sel_tag ''article'') doc,
             find_first (sel_attr ''role'' ''main'') doc,
             find_first (sel_class (quirks_mode pg) ''content'') doc,
             find_first (sel_id (quirks_mode pg) ''content'') doc,
             document_body pg]
      in case mainContent of
           None \<Rightarrow> Inl (JsError ''TypeError'' ''Cannot read properties of null'')
         | Some m \<Rightarrow>
             (let clone = remove_all_tags
                    [''script'', ''style'', ''nav'', ''header'', ''footer'', ''iframe''] (children m)
              in Inr (Some \<lparr>cap_html = cleanHtml b (innerHTML (tag_of m) clone),
                            cap_text = trim (concat (map textContent clone))\<rparr>)))"

definition getUrlOnly :: "page \<Rightarrow> captured option" where
  "getUrlOnly pg =
     Some \<lparr>cap_html = ''<p>Page: <a href='' @ dq @ content_escapeHtml (Some (location_href pg)) @ dq
                    @ ''>'' @ content_escapeHtml (Some (document_title pg)) @ ''</a></p>'',
           cap_text = document_title pg @ '': '' @ location_href pg\<rparr>"

definition extractContent :: "browser \<Rightarrow> page \<Rightarrow> string option \<Rightarrow> js_error + captured option" where
  "extractContent b pg contentType =
     (if contentType = Some ''selection'' then Inr (getSelectedContent b pg)
      else if contentType = Some ''full-page'' then getFullPageContent b pg
      else if contentType = Some ''url-only'' then Inr (getUrlOnly pg)
      else Inr (getSelectedContent b pg))"

text \<open>
  The \<^verbatim>\<open>getContent\<close> branch of the message listener: the value handed to
  \<^verbatim>\<open>sendResponse\<close>, \<open>None\<close> for \<^verbatim>\<open>null\<close>. The extraction it calls inside
  its try block is a parameter of the handler, which the listener instantiates with
  \<^verbatim>\<open>extractContent\<close>.
\<close>

definition getContent_handler ::
  "(string option \<Rightarrow> js_error + captured option) \<Rightarrow> string option \<Rightarrow> captured option" where
  "getContent_handler extract contentType =
     (if \<not> truthy_str contentType \<or> the contentType \<notin> set VALID_CONTENT_TYPES then None
      else (case extract contentType of
              Inl e \<Rightarrow> None
            | Inr content \<Rightarrow> content))"

definition onMessage_getContent :: "browser \<Rightarrow> page \<Rightarrow> string option \<Rightarrow> captured option" where
  "onMessage_getContent b pg contentType = getContent_handler (extractContent b pg) contentType"

section \<open>PDF pagination (printPageToPdf, content.js)\<close>

text \<open>
  The numbers of the layout are modelled as reals: the arithmetic is exact, the rounding of
  JavaScript's floating point numbers is not modelled. A PDF document is the list of its
  pages, a page the list of the images placed on it; a new document has one empty page,
  \<^verbatim>\<open>addPage\<close> appends a page and \<^verbatim>\<open>addImage\<close> places an image on the last one.
\<close>

record placement =
  img_x :: real
  img_y :: real
  img_width :: real
  img_height :: real

type_synonym pdf_document = "placement list list"

definition MARGIN_MM :: real where
  "MARGIN_MM = 10"

definition new_jsPDF :: pdf_document where
  "new_jsPDF = [[]]"

definition addPage :: "pdf_document \<Rightarrow> pdf_document" where
  "addPage pdf = pdf @ [[]]"

definition addImage :: "pdf_document \<Rightarrow> real \<Rightarrow> real \<Rightarrow> real \<Rightarrow> real \<Rightarrow> pdf_document" where
  "addImage pdf x y w h =
     butlast pdf @ [last pdf @ [\<lparr>img_x = x, img_y = y, img_width = w, img_height = h\<rparr>]]"

text \<open>
  \<^verbatim>\<open>while (heightLeft > 0) { position = heightLeft - imgHeight + MARGIN_MM; pdf.addPage();
  pdf.addImage(imgData, 'JPEG', MARGIN_MM, position, imgWidth, imgHeight);
  heightLeft -= (pdfHeight - marginDouble); }\<close>
  The loop need not end (a page no higher than its margins), so the result is an option:
  \<open>None\<close> is the loop that never returns.
\<close>

partial_function (option) pagination_loop ::
  "real \<Rightarrow> real \<Rightarrow> real \<Rightarrow> real \<Rightarrow> pdf_document \<Rightarrow> pdf_document option" where
  "pagination_loop pdfHeight imgWidth imgHeight heightLeft pdf =
     (if heightLeft > 0
      then pagination_loop pdfHeight imgWidth imgHeight
             (heightLeft - (pdfHeight - MARGIN_MM * 2))
             (addImage (addPage pdf) MARGIN_MM (heightLeft - imgHeight + MARGIN_MM) imgWidth imgHeight)
      else Some pdf)"

text \<open>
  The layout of \<^verbatim>\<open>printPageToPdf\<close> from the canvas size and the page size that jsPDF
  reports for the A4 format in millimetres. The canvas is taken to have a positive width:
  a division by zero leaves the reals.
\<close>

definition imgWidth_of :: "real \<Rightarrow> real" where
  "imgWidth_of pdfWidth = pdfWidth - MARGIN_MM * 2"

definition imgHeight_of :: "real \<Rightarrow> real \<Rightarrow> real \<Rightarrow> real" where
  "imgHeight_of pdfWidth canvas_width canvas_height =
     (canvas_height * imgWidth_of pdfWidth) / canvas_width"

definition usable_height :: "real \<Rightarrow> real" where
  "usable_height pdfHeight = pdfHeight - MARGIN_MM * 2"

definition printPageToPdf_layout :: "real \<Rightarrow> real \<Rightarrow> real \<Rightarrow> real \<Rightarrow> pdf_document option" where
  "printPageToPdf_layout pdfWidth pdfHeight canvas_width canvas_height =
     (let marginDouble = MARGIN_MM * 2;
          imgWidth = pdfWidth - marginDouble;
          imgHeight = (canvas_height * imgWidth) / canvas_width;
          heightLeft = imgHeight;
          position = MARGIN_MM;
          pdf = addImage new_jsPDF MARGIN_MM position imgWidth imgHeight
      in pagination_loop pdfHeight imgWidth imgHeight (heightLeft - (pdfHeight - marginDouble)) pdf)"

text \<open>The vertical offsets of the images, page by page.\<close>

definition page_offsets :: "pdf_document \<Rightarrow> real list list" where
  "page_offsets pdf = map (map img_y) pdf"

section \<open>The background script: values, network and state\<close>

subsection \<open>Numbers as text\<close>

definition digit_char :: "nat \<Rightarrow> char" where
  "digit_char d = ''0123456789'' ! d"

function show_nat :: "nat \<Rightarrow> string" where
  "show_nat n = (if n < 10 then [digit_char n] else show_nat (n div 10) @ [digit_char (n mod 10)])"
  by pat_completeness auto
termination
  by (relation "measure id") auto

declare show_nat.simps [simp del]

definition show_int :: "int \<Rightarrow> string" where
  "show_int i = (if i < 0 then ''-'' @ show_nat (nat (- i)) else show_nat (nat i))"

text \<open>A number that may be \<^verbatim>\<open>undefined\<close>, interpolated into a template string.\<close>

definition show_id :: "int option \<Rightarrow> string" where
  "show_id i = (case i of None \<Rightarrow> ''undefined'' | Some n \<Rightarrow> show_int n)"

text \<open>\<^verbatim>\<open>String(n).padStart(2, '0')\<close>\<close>

definition padStart2 :: "string \<Rightarrow> string" where
  "padStart2 s = replicate (2 - length s) (CHR ''0'') @ s"

subsection \<open>formatTimestamp\<close>

text \<open>A \<^verbatim>\<open>Date\<close> in local time, by the getters the code calls.\<close>

record js_date =
  getFullYear :: int
  getMonth :: nat
  getDate :: nat
  getHours :: nat
  getMinutes :: nat
  getSeconds :: nat
  getTimezoneOffset :: int

definition formatTimestamp :: "js_date \<Rightarrow> string" where
  "formatTimestamp date =
     (let year = show_int (getFullYear date);
          month = padStart2 (show_nat (getMonth date + 1));
          day = padStart2 (show_nat (getDate date));
          hours = padStart2 (show_nat (getHours date));
          minutes = padStart2 (show_nat (getMinutes date));
          seconds = padStart2 (show_nat (getSeconds date));
          offsetMinutes = - getTimezoneOffset date;
          offsetHours = nat \<bar>offsetMinutes\<bar> div 60;
          offsetMins = nat \<bar>offsetMinutes\<bar> mod 60;
          offsetSign = (if offsetMinutes \<ge> 0 then ''+'' else ''-'');
          timezone = ''GMT'' @ offsetSign @ show_nat offsetHours
                     @ (if offsetMins > 0 then '':'' @ padStart2 (show_nat offsetMins) else [])
      in year @ ''-'' @ month @ ''-'' @ day @ '' '' @ hours @ '':'' @ minutes @ '':'' @ seconds
         @ '' '' @ timezone)"

subsection \<open>Requests and responses\<close>

datatype http_method = GET | POST | PUT

text \<open>
  The bodies the client sends: the JSON of a new document (name, tags, the contents of its
  fields), the JSON of a field update (field id, content), and the form of a file upload
  (the blob and its file name).
\<close>

datatype request_body =
    NoBody
  | CreateDocumentJson string string "string list"
  | UpdateFieldJson int string
  | FileFormData string string

record http_request =
  req_method :: http_method
  req_url :: string
  req_apiKey :: string
  req_body :: request_body

record field =
  field_id :: int
  field_content :: "string option"

record doc_entry =
  doc_id :: "int option"
  doc_globalId :: "string option"
  doc_name :: "string option"

text \<open>
  What \<^verbatim>\<open>response.json()\<close> gives, by the properties the client reads; a property the
  server left out is \<open>None\<close>.
\<close>

record json_body =
  j_id :: "int option"
  j_globalId :: "string option"
  j_fields :: "field list option"
  j_documents :: "doc_entry list option"
  j_totalHits :: "int option"
  j_message :: "string option"
  j_error :: "string option"
  j_links_self :: "string option"

text \<open>A response: its status, its body as text, and the body parsed (\<open>None\<close>: not JSON).\<close>

record http_response =
  status :: nat
  body_text :: string
  body_json :: "json_body option"

definition ok :: "http_response \<Rightarrow> bool" where
  "ok r = (200 \<le> status r \<and> status r \<le> 299)"

text \<open>
  What the network does with a request: a response after so many milliseconds, a failure
  after so many milliseconds, or nothing ever. The server may depend on the requests it has
  received before.
\<close>

datatype net_outcome = Reply nat http_response | NetworkFailure nat | NoReply

type_synonym server = "http_request list \<Rightarrow> http_request \<Rightarrow> net_outcome"

subsection \<open>State of the service worker\<close>

definition DEFAULT_PAGE_SIZE :: int where
  "DEFAULT_PAGE_SIZE = 50"

text \<open>\<^verbatim>\<open>CONFIG.API.TIMEOUT_MS\<close>: config.js defines no such key (it has REQUEST_TIMEOUT_MS).\<close>

definition CONFIG_API_TIMEOUT_MS :: "nat option" where
  "CONFIG_API_TIMEOUT_MS = None"

record documents_cache =
  cache_data :: "doc_entry list option"
  cache_timestamp :: "int option"
  cache_ttl :: int
  cache_totalPages :: "int option"
  cache_pageSize :: int

definition empty_cache :: documents_cache where
  "empty_cache = \<lparr>cache_data = None, cache_timestamp = None, cache_ttl = 5 * 60 * 1000,
                   cache_totalPages = None, cache_pageSize = DEFAULT_PAGE_SIZE\<rparr>"

text \<open>
  The cache, the session storage (server URL and access token) and the requests sent to
  the network so far, oldest first.
\<close>

record bg_state =
  documentsCache :: documents_cache
  session_serverUrl :: "string option"
  session_accessToken :: "string option"
  network_log :: "http_request list"

definition initial_state :: bg_state where
  "initial_state = \<lparr>documentsCache = empty_cache, session_serverUrl = None,
                     session_accessToken = None, network_log = []\<rparr>"

subsection \<open>fetch and fetchWithTimeout\<close>

text \<open>A promise settles with a value or never does.\<close>

datatype 'a settled = Settled 'a | NeverSettles

definition AbortError :: js_error where
  "AbortError = JsError ''AbortError'' ''signal is aborted without reason''"

definition FetchFailed :: js_error where
  "FetchFailed = JsError ''TypeError'' ''Failed to fetch''"

definition log_request :: "http_request \<Rightarrow> bg_state \<Rightarrow> bg_state" where
  "log_request req st = st\<lparr>network_log := network_log st @ [req]\<rparr>"

text \<open>\<^verbatim>\<open>fetch(url, options)\<close> with no abort signal: it waits as long as the network does.\<close>

definition fetch_plain ::
  "server \<Rightarrow> http_request \<Rightarrow> bg_state \<Rightarrow> (js_error + http_response) settled \<times> bg_state" where
  "fetch_plain srv req st =
     (case srv (network_log st) req of
        Reply d r \<Rightarrow> (Settled (Inr r), log_request req st)
      | NetworkFailure d \<Rightarrow> (Settled (Inl FetchFailed), log_request req st)
      | NoReply \<Rightarrow> (NeverSettles, log_request req st))"

text \<open>
  \<^verbatim>\<open>fetch(url, {...options, signal})\<close> with a timer that aborts the signal after
  \<open>timeout\<close> milliseconds.
\<close>

definition fetch_abortable ::
  "server \<Rightarrow> nat \<Rightarrow> http_request \<Rightarrow> bg_state \<Rightarrow> (js_error + http_response) \<times> bg_state" where
  "fetch_abortable srv timeout req st =
     (case srv (network_log st) req of
        Reply d r \<Rightarrow> (if d < timeout then Inr r else Inl AbortError, log_request req st)
      | NetworkFailure d \<Rightarrow> (if d < timeout then Inl FetchFailed else Inl AbortError, log_request req st)
      | NoReply \<Rightarrow> (Inl AbortError, log_request req st))"

definition default_timeout :: nat where
  "default_timeout = (case CONFIG_API_TIMEOUT_MS of None \<Rightarrow> 30000
                      | Some t \<Rightarrow> if t = 0 then 30000 else t)"

definition RequestTimeout :: js_error where
  "RequestTimeout = JsError ''Error'' ''Request timeout''"

definition fetchWithTimeout_ms ::
  "server \<Rightarrow> nat \<Rightarrow> http_request \<Rightarrow> bg_state \<Rightarrow> (js_error + http_response) \<times> bg_state" where
  "fetchWithTimeout_ms srv timeout req st =
     (case fetch_abortable srv timeout req st of
        (Inr response, st') \<Rightarrow> (Inr response, st')
      | (Inl error, st') \<Rightarrow>
          (if err_name error = ''AbortError'' then (Inl RequestTimeout, st') else (Inl error, st')))"

definition fetchWithTimeout ::
  "server \<Rightarrow> http_request \<Rightarrow> bg_state \<Rightarrow> (js_error + http_response) \<times> bg_state" where
  "fetchWithTimeout srv req st = fetchWithTimeout_ms srv default_timeout req st"

subsection \<open>getHttpErrorMessage and createDocument\<close>

definition getHttpErrorMessage :: "http_response \<Rightarrow> string" where
  "getHttpErrorMessage response =
     (if status response = 401 then ''Session expired. Please reconnect.''
      else if status response = 403 then ''Permission denied. Check your access rights.''
      else if status response = 429 then ''Too many requests. Please wait and try again.''
      else if status response \<ge> 500 then ''Server error. Please try again later.''
      else ''Request failed. Please try again.'')"

text \<open>
  The result of a clip, of a document creation and of an authentication:
  \<^verbatim>\<open>{success: true, documentId, globalId}\<close> or \<^verbatim>\<open>{success: false, error}\<close>.
\<close>

datatype clip_result = Success "int option" "string option" | Failure string

definition JsonSyntaxError :: js_error where
  "JsonSyntaxError = JsError ''SyntaxError'' ''Unexpected token''"

text \<open>\<^verbatim>\<open>a || b\<close> on strings that may be missing.\<close>

definition or_else :: "string option \<Rightarrow> string option \<Rightarrow> string option" where
  "or_else a b = (if truthy_str a then a else b)"

definition createDocument ::
  "server \<Rightarrow> string \<Rightarrow> string \<Rightarrow> string \<Rightarrow> bg_state \<Rightarrow> (js_error + clip_result) \<times> bg_state" where
  "createDocument srv serverUrl accessToken title st =
     (case fetchWithTimeout srv
             \<lparr>req_method = POST, req_url = serverUrl @ ''/api/v1/documents'',
              req_apiKey = accessToken,
              req_body = CreateDocumentJson title ''web-clipper'' [[]]\<rparr> st of
        (Inl e, st') \<Rightarrow> (Inl e, st')
      | (Inr createResponse, st') \<Rightarrow>
          if \<not> ok createResponse then
            (let errorText = body_text createResponse;
                 errorMessage = getHttpErrorMessage createResponse
             in case body_json createResponse of
                  Some errorJson \<Rightarrow>
                    (if truthy_str (j_message errorJson) \<or> truthy_str (j_error errorJson)
                     then (Inr (Failure (the (or_else (j_message errorJson) (j_error errorJson)))), st')
                     else (Inr (Failure errorMessage), st'))
                | None \<Rightarrow>
                    (if errorText \<noteq> [] \<and> length errorText < 100
                     then (Inr (Failure errorText), st')
                     else (Inr (Failure errorMessage), st')))
          else (case body_json createResponse of
                  None \<Rightarrow> (Inl JsonSyntaxError, st')
                | Some newDoc \<Rightarrow> (Inr (Success (j_id newDoc) (j_globalId newDoc)), st')))"

subsection \<open>handleAuth\<close>

datatype auth_result = AuthSuccess | AuthFailure string

definition handleAuth :: "server \<Rightarrow> string \<Rightarrow> string \<Rightarrow> bg_state \<Rightarrow> auth_result \<times> bg_state" where
  "handleAuth srv serverUrl apiKey st =
     (case fetchWithTimeout srv
             \<lparr>req_method = GET, req_url = serverUrl @ ''/api/v1/status'',
              req_apiKey = apiKey, req_body = NoBody\<rparr> st of
        (Inl error, st') \<Rightarrow>
          (if err_message error = ''Request timeout''
           then (AuthFailure ''Connection timeout. Please check your network and try again.'', st')
           else (AuthFailure ''Authentication failed. Please check your connection.'', st'))
      | (Inr response, st') \<Rightarrow>
          if \<not> ok response then
            (if status response = 401 then (AuthFailure ''Invalid API key'', st')
             else if status response = 404
             then (AuthFailure ''Server endpoint not found. Please check the URL.'', st')
             else (AuthFailure (getHttpErrorMessage response), st'))
          else (AuthSuccess,
                st'\<lparr>session_serverUrl := Some serverUrl, session_accessToken := Some apiKey,
                    documentsCache := empty_cache\<rparr>))"

subsection \<open>getDocuments\<close>

record docs_result =
  res_success :: bool
  res_error :: "string option"
  res_documents :: "doc_entry list"
  res_hasMore :: bool

definition docs_failure :: "string \<Rightarrow> docs_result" where
  "docs_failure msg = \<lparr>res_success = False, res_error = Some msg, res_documents = [], res_hasMore = False\<rparr>"

text \<open>\<^verbatim>\<open>documentsCache.data && documentsCache.timestamp && (now - documentsCache.timestamp) < documentsCache.ttl\<close>\<close>

definition cache_fresh :: "documents_cache \<Rightarrow> int \<Rightarrow> bool" where
  "cache_fresh c now =
     (cache_data c \<noteq> None \<and> cache_timestamp c \<noteq> None \<and> cache_timestamp c \<noteq> Some 0
      \<and> now - the (cache_timestamp c) < cache_ttl c)"

text \<open>\<^verbatim>\<open>documentsCache.totalPages > 1\<close>, false for \<^verbatim>\<open>null\<close>.\<close>

definition more_than_one_page :: "int option \<Rightarrow> bool" where
  "more_than_one_page tp = (case tp of None \<Rightarrow> False | Some n \<Rightarrow> n > 1)"

definition documents_url :: "string \<Rightarrow> int \<Rightarrow> string" where
  "documents_url serverUrl pageNumber =
     serverUrl @ ''/api/v1/documents?pageSize='' @ show_int DEFAULT_PAGE_SIZE
       @ ''&pageNumber='' @ show_int pageNumber @ ''&orderBy=lastModified desc''"

text \<open>The request of \<^verbatim>\<open>getDocuments\<close> for a page.\<close>

definition list_request :: "bg_state \<Rightarrow> int \<Rightarrow> http_request" where
  "list_request st p = \<lparr>req_method = GET, req_url = documents_url (the (session_serverUrl st)) p,
      req_apiKey = the (session_accessToken st), req_body = NoBody\<rparr>"

text \<open>\<^verbatim>\<open>data.totalHits || documents.length\<close>\<close>

definition totalDocs_of :: "int option \<Rightarrow> doc_entry list \<Rightarrow> int" where
  "totalDocs_of totalHits docs =
     (case totalHits of None \<Rightarrow> int (length docs)
      | Some t \<Rightarrow> if t = 0 then int (length docs) else t)"

text \<open>\<^verbatim>\<open>Math.ceil(totalDocs / pageSize)\<close>\<close>

definition totalPages_of :: "int \<Rightarrow> int \<Rightarrow> int" where
  "totalPages_of totalDocs pageSize = \<lceil>real_of_int totalDocs / real_of_int pageSize\<rceil>"

text \<open>
  The body of the try block of \<^verbatim>\<open>getDocuments\<close>, after the credentials are read.
  \<open>now\<close> is what \<^verbatim>\<open>Date.now()\<close> returns at the cache check and \<open>stored_at\<close> what it
  returns when the cache is filled.
\<close>

definition getDocuments_try ::
  "server \<Rightarrow> int \<Rightarrow> int \<Rightarrow> int \<Rightarrow> bg_state \<Rightarrow> (js_error + docs_result) \<times> bg_state" where
  "getDocuments_try srv pageNumber now stored_at st =
     (if \<not> truthy_str (session_serverUrl st) \<or> \<not> truthy_str (session_accessToken st)
      then (Inr (docs_failure ''Not authenticated''), st)
      else if pageNumber = 0 \<and> cache_fresh (documentsCache st) now
      then (Inr \<lparr>res_success = True, res_error = None,
                 res_documents = the (cache_data (documentsCache st)),
                 res_hasMore = more_than_one_page (cache_totalPages (documentsCache st))\<rparr>, st)
      else
        (let pageSize = DEFAULT_PAGE_SIZE
         in case fetchWithTimeout srv
                   \<lparr>req_method = GET,
                    req_url = documents_url (the (session_serverUrl st)) pageNumber,
                    req_apiKey = the (session_accessToken st), req_body = NoBody\<rparr> st of
              (Inl e, st') \<Rightarrow> (Inl e, st')
            | (Inr response, st') \<Rightarrow>
                if \<not> ok response then (Inr (docs_failure (getHttpErrorMessage response)), st')
                else (case body_json response of
                        None \<Rightarrow> (Inl JsonSyntaxError, st')
                      | Some data \<Rightarrow>
                          (case j_documents data of
                             None \<Rightarrow> (Inl (JsError ''TypeError'' ''Cannot read properties of undefined''), st')
                           | Some docs \<Rightarrow>
                               (let documents = map (\<lambda>doc. \<lparr>doc_id = doc_id doc,
                                        doc_globalId = doc_globalId doc, doc_name = doc_name doc\<rparr>) docs;
                                    totalDocs = totalDocs_of (j_totalHits data) documents;
                                    totalPages = totalPages_of totalDocs pageSize;
                                    hasMore = (pageNumber + 1 < totalPages);
                                    st'' = (if pageNumber = 0
                                            then st'\<lparr>documentsCache :=
                                                   \<lparr>cache_data = Some documents,
                                                    cache_timestamp = Some stored_at,
                                                    cache_ttl = 5 * 60 * 1000,
                                                    cache_totalPages = Some totalPages,
                                                    cache_pageSize = pageSize\<rparr>\<rparr>
                                            else st')
                                in (Inr \<lparr>res_success = True, res_error = None,
                                         res_documents = documents, res_hasMore = hasMore\<rparr>, st''))))))"

text \<open>
  The asynchronous body of \<^verbatim>\<open>getDocuments\<close>, the try block and its catch, run from
  its start to its end with nothing else of the service worker in between. The wrapper
  around the body (the \<^verbatim>\<open>activeRequests\<close> look-up, registration and deletion) and
  the suspension of the body while the list request is on the network are in the section
  on the service worker below, where \<^verbatim>\<open>getDocuments\<close> itself is defined.
\<close>

definition getDocuments_request ::
  "server \<Rightarrow> int \<Rightarrow> int \<Rightarrow> int \<Rightarrow> bg_state \<Rightarrow> docs_result \<times> bg_state" where
  "getDocuments_request srv pageNumber now stored_at st =
     (case getDocuments_try srv pageNumber now stored_at st of
        (Inr res, st') \<Rightarrow> (res, st')
      | (Inl error, st') \<Rightarrow>
          (if err_message error = ''Request timeout'' then (docs_failure ''Request timeout'', st')
           else (docs_failure ''Failed to load documents'', st')))"

subsection \<open>formatClippedContent\<close>

datatype target_doc = NewDocument string | ExistingDocument "int option" "string option"

record clip_request =
  targetDoc :: target_doc
  content_html :: "string option"
  clip_note :: "string option"
  sourceUrl :: "string option"
  sourceTitle :: "string option"

definition attribution_div_open :: string where
  "attribution_div_open =
     ''<div style='' @ dq @ ''border-left: 3px solid #4a90e2; padding-left: 12px; margin: 20px 0;'' @ dq @ ''>''"

definition attribution_p_open :: string where
  "attribution_p_open =
     ''<p style='' @ dq @ ''color: #666; font-size: 0.9em; margin: 0 0 8px 0;'' @ dq @ ''>''"

definition note_p_open :: string where
  "note_p_open =
     ''<p style='' @ dq @ ''background: #fffde7; padding: 8px; border-radius: 4px; margin: 8px 0;'' @ dq @ ''>''"

definition formatClippedContent :: "clip_request \<Rightarrow> string \<Rightarrow> string" where
  "formatClippedContent request timestamp =
     (let safeUrl = escapeHtml (sourceUrl request);
          safeTitle = escapeHtml (sourceTitle request);
          safeNote = (if truthy_str (clip_note request) then escapeHtml (clip_note request) else []);
          safeTimestamp = escapeHtml (Some timestamp)
      in attribution_div_open
         @ attribution_p_open
         @ ''Clipped from <a href='' @ dq @ safeUrl @ dq @ ''>'' @ safeTitle @ ''</a> on '' @ safeTimestamp
         @ ''</p>''
         @ (if safeNote \<noteq> [] then note_p_open @ ''<strong>Note:</strong> '' @ safeNote @ ''</p>'' else [])
         @ ''<div>'' @ sanitizeClippedHtml (content_html request) @ ''</div>''
         @ ''</div>'')"

subsection \<open>clipContent\<close>

definition document_url :: "string \<Rightarrow> int option \<Rightarrow> string" where
  "document_url serverUrl documentId = serverUrl @ ''/api/v1/documents/'' @ show_id documentId"

definition multiple_fields_error :: string where
  "multiple_fields_error = ''Cannot clip to Form-based documents.'' @ [CHR 0x0A, CHR 0x0A]
     @ ''This document has multiple form fields. The Web Clipper can only save to simple documents with one field.''
     @ [CHR 0x0A, CHR 0x0A] @ ''Please select or create a regular document instead.''"

definition no_fields_error :: string where
  "no_fields_error = ''Document has no editable fields.'' @ [CHR 0x0A, CHR 0x0A]
     @ ''This document cannot be edited. Please select a different document.''"

text \<open>\<^verbatim>\<open>doc.fields[0]?.content || ''\<close>\<close>

definition content_or_empty :: "string option \<Rightarrow> string" where
  "content_or_empty c = (case c of None \<Rightarrow> [] | Some s \<Rightarrow> s)"

text \<open>
  Resolving the target: a new document is created, an existing one is taken as given. The
  left result is a thrown error, \<open>Inr (Inl r)\<close> is the early return of a failed creation.
\<close>

definition resolve_target ::
  "server \<Rightarrow> string \<Rightarrow> string \<Rightarrow> target_doc \<Rightarrow> bg_state
     \<Rightarrow> (js_error + (clip_result + int option \<times> string option)) \<times> bg_state" where
  "resolve_target srv serverUrl accessToken target st =
     (case target of
        NewDocument title \<Rightarrow>
          (case createDocument srv serverUrl accessToken title st of
             (Inl e, st') \<Rightarrow> (Inl e, st')
           | (Inr (Failure msg), st') \<Rightarrow> (Inr (Inl (Failure msg)), st')
           | (Inr (Success documentId globalId), st') \<Rightarrow> (Inr (Inr (documentId, globalId)), st'))
      | ExistingDocument documentId globalId \<Rightarrow> (Inr (Inr (documentId, globalId)), st))"

text \<open>
  The try block of \<^verbatim>\<open>clipContent\<close>; \<open>date\<close> is the \<^verbatim>\<open>new Date()\<close> of the
  timestamp.
\<close>

definition clipContent_try ::
  "server \<Rightarrow> js_date \<Rightarrow> clip_request \<Rightarrow> bg_state \<Rightarrow> (js_error + clip_result) \<times> bg_state" where
  "clipContent_try srv date request st =
     (if \<not> truthy_str (session_serverUrl st) \<or> \<not> truthy_str (session_accessToken st)
      then (Inr (Failure ''Not authenticated. Please reconnect.''), st)
      else
        (let serverUrl = the (session_serverUrl st); accessToken = the (session_accessToken st)
         in case resolve_target srv serverUrl accessToken (targetDoc request) st of
              (Inl e, st1) \<Rightarrow> (Inl e, st1)
            | (Inr (Inl result), st1) \<Rightarrow> (Inr result, st1)
            | (Inr (Inr (documentId, globalId)), st1) \<Rightarrow>
                (case fetchWithTimeout srv
                        \<lparr>req_method = GET, req_url = document_url serverUrl documentId,
                         req_apiKey = accessToken, req_body = NoBody\<rparr> st1 of
                   (Inl e, st2) \<Rightarrow> (Inl e, st2)
                 | (Inr getResponse, st2) \<Rightarrow>
                     if \<not> ok getResponse then
                       (if status getResponse = 404 then (Inr (Failure ''Document not found''), st2)
                        else if status getResponse = 401 then (Inr (Failure ''Session expired''), st2)
                        else if status getResponse = 403 then (Inr (Failure ''Access denied''), st2)
                        else (Inr (Failure ''Failed to access document''), st2))
                     else
                       (case body_json getResponse of
                          None \<Rightarrow> (Inl JsonSyntaxError, st2)
                        | Some doc \<Rightarrow>
                            (case j_fields doc of
                               None \<Rightarrow> (Inr (Failure no_fields_error), st2)
                             | Some flds \<Rightarrow>
                                 if length flds > 1 then (Inr (Failure multiple_fields_error), st2)
                                 else (case flds of
                                         [] \<Rightarrow> (Inr (Failure no_fields_error), st2)
                                       | field0 # _ \<Rightarrow>
                                           (let timestamp = formatTimestamp date;
                                                clippedHtml = formatClippedContent request timestamp;
                                                currentContent = content_or_empty (field_content field0);
                                                updatedContent = currentContent @ clippedHtml
                                            in case fetchWithTimeout srv
                                                      \<lparr>req_method = PUT,
                                                       req_url = document_url serverUrl documentId,
                                                       req_apiKey = accessToken,
                                                       req_body = UpdateFieldJson (field_id field0) updatedContent\<rparr> st2 of
                                                 (Inl e, st3) \<Rightarrow> (Inl e, st3)
                                               | (Inr updateResponse, st3) \<Rightarrow>
                                                   if \<not> ok updateResponse then
                                                     (if status updateResponse = 401 then (Inr (Failure ''Session expired''), st3)
                                                      else if status updateResponse = 403 then (Inr (Failure ''Access denied''), st3)
                                                      else if status updateResponse = 429 then (Inr (Failure ''Too many requests''), st3)
                                                      else if status updateResponse \<ge> 500 then (Inr (Failure ''Server error''), st3)
                                                      else (Inr (Failure ''Failed to save clipped content''), st3))
                                                   else (Inr (Success documentId globalId),
                                                         st3\<lparr>documentsCache := empty_cache\<rparr>))))))))"

definition clipContent_request ::
  "server \<Rightarrow> js_date \<Rightarrow> clip_request \<Rightarrow> bg_state \<Rightarrow> clip_result \<times> bg_state" where
  "clipContent_request srv date request st =
     (case clipContent_try srv date request st of
        (Inr result, st') \<Rightarrow> (result, st')
      | (Inl error, st') \<Rightarrow>
          (if err_message error = ''Request timeout''
           then (Failure ''Request timeout. Please try again.'', st')
           else (Failure ''An error occurred while clipping'', st')))"

subsection \<open>clipPdf\<close>

text \<open>
  What \<^verbatim>\<open>chrome.tabs.sendMessage(tabId, {action: 'printPage'})\<close> gives back: it throws,
  or it resolves with nothing, or with an object that may carry \<open>pdfData\<close> and \<open>error\<close>.
\<close>

datatype print_reply =
    PrintThrows js_error
  | PrintUndefined
  | PrintResult "string option" "string option"

text \<open>Every path of \<^verbatim>\<open>generatePdfFromTab\<close> but the one with PDF data ends in its catch.\<close>

definition generatePdfFromTab :: "print_reply \<Rightarrow> string option" where
  "generatePdfFromTab reply =
     (case reply of
        PrintResult pdfData error \<Rightarrow> if truthy_str pdfData then pdfData else None
      | PrintUndefined \<Rightarrow> None
      | PrintThrows e \<Rightarrow> None)"

definition is_filename_char :: "char \<Rightarrow> bool" where
  "is_filename_char c = (is_word_char c \<or> c = CHR ''-'' \<or> c = CHR ''.'')"

definition sanitizeFilename :: "string \<Rightarrow> string" where
  "sanitizeFilename filename = take 100 (map (\<lambda>c. if is_filename_char c then c else CHR ''_'') filename)"

definition is_digit :: "char \<Rightarrow> bool" where
  "is_digit c = (let n = (of_char c :: nat) in 48 \<le> n \<and> n \<le> 57)"

text \<open>
  \<^verbatim>\<open>s.match(/lit(\d+)/)?.[1]\<close>: the digits after the leftmost occurrence of the literal
  that has a digit after it.
\<close>

fun match_digits_after :: "string \<Rightarrow> string \<Rightarrow> string option" where
  "match_digits_after lit [] = None"
| "match_digits_after lit (c # cs) =
     (if prefix lit (c # cs) \<and> takeWhile is_digit (drop (length lit) (c # cs)) \<noteq> []
      then Some (takeWhile is_digit (drop (length lit) (c # cs)))
      else match_digits_after lit cs)"

text \<open>
  \<^verbatim>\<open>data.id || data.globalId?.match(/GL(\d+)/)?.[1] || data._links?.self?.match(/\/files\/(\d+)/)?.[1]\<close>
\<close>

definition extract_fileId :: "json_body \<Rightarrow> string option" where
  "extract_fileId d =
     (if j_id d \<noteq> None \<and> j_id d \<noteq> Some 0 then Some (show_int (the (j_id d)))
      else (case (case j_globalId d of None \<Rightarrow> None | Some g \<Rightarrow> match_digits_after ''GL'' g) of
              Some i \<Rightarrow> Some i
            | None \<Rightarrow> (case j_links_self d of None \<Rightarrow> None
                        | Some l \<Rightarrow> match_digits_after ''/files/'' l)))"

text \<open>
  \<^verbatim>\<open>uploadPdfToRSpace\<close>. The data URL is turned into a blob locally; the upload itself is
  a call of \<^verbatim>\<open>fetch\<close>, not of \<^verbatim>\<open>fetchWithTimeout\<close>. Every error is caught and
  gives \<^verbatim>\<open>null\<close>.
\<close>

definition uploadPdfToRSpace ::
  "server \<Rightarrow> string \<Rightarrow> string \<Rightarrow> string \<Rightarrow> string \<Rightarrow> bg_state \<Rightarrow> string option settled \<times> bg_state" where
  "uploadPdfToRSpace srv serverUrl accessToken pdfDataUrl fileName st =
     (case fetch_plain srv
             \<lparr>req_method = POST, req_url = serverUrl @ ''/api/v1/files'',
              req_apiKey = accessToken, req_body = FileFormData pdfDataUrl fileName\<rparr> st of
        (NeverSettles, st') \<Rightarrow> (NeverSettles, st')
      | (Settled (Inl e), st') \<Rightarrow> (Settled None, st')
      | (Settled (Inr uploadResponse), st') \<Rightarrow>
          if \<not> ok uploadResponse then (Settled None, st')
          else (case body_json uploadResponse of
                  None \<Rightarrow> (Settled None, st')
                | Some d \<Rightarrow> (Settled (extract_fileId d), st')))"

definition nl :: string where
  "nl = [CHR 0x0A]"

definition sp :: "nat \<Rightarrow> string" where
  "sp n = replicate n (CHR '' '')"

text \<open>The template literal of \<^verbatim>\<open>linkFileToDocument\<close>, trimmed.\<close>

definition pdf_reference_html :: "clip_request \<Rightarrow> string \<Rightarrow> string \<Rightarrow> string" where
  "pdf_reference_html request timestamp fileId =
     (let safeUrl = escapeHtml (sourceUrl request);
          safeTitle = escapeHtml (sourceTitle request);
          safeNote = (if truthy_str (clip_note request) then escapeHtml (clip_note request) else []);
          safeTimestamp = escapeHtml (Some timestamp)
      in trim
          (nl @ sp 6 @ attribution_div_open
           @ nl @ sp 8 @ attribution_p_open
           @ nl @ sp 10 @ ''PDF clipped from <a href='' @ dq @ safeUrl @ dq @ ''>'' @ safeTitle
                @ ''</a> on '' @ safeTimestamp
           @ nl @ sp 8 @ ''</p>''
           @ nl @ sp 8
           @ (if safeNote \<noteq> []
              then nl @ sp 8 @ note_p_open
                   @ nl @ sp 10 @ ''<strong>Note:</strong> '' @ safeNote
                   @ nl @ sp 8 @ ''</p>''
                   @ nl @ sp 8
              else [])
           @ nl @ sp 8 @ ''<p><fileId='' @ fileId @ ''></p>''
           @ nl @ sp 6 @ ''</div>''
           @ nl @ sp 4))"

text \<open>
  \<^verbatim>\<open>linkFileToDocument\<close>: true when the reference was written. Its catch turns every
  thrown error, the time-out of a request among them, into \<^verbatim>\<open>false\<close>.
\<close>

definition linkFileToDocument ::
  "server \<Rightarrow> js_date \<Rightarrow> string \<Rightarrow> string \<Rightarrow> int option \<Rightarrow> string \<Rightarrow> clip_request \<Rightarrow> bg_state
     \<Rightarrow> bool \<times> bg_state" where
  "linkFileToDocument srv date serverUrl accessToken documentId fileId request st =
     (case fetchWithTimeout srv
             \<lparr>req_method = GET, req_url = document_url serverUrl documentId,
              req_apiKey = accessToken, req_body = NoBody\<rparr> st of
        (Inl e, st1) \<Rightarrow> (False, st1)
      | (Inr getResponse, st1) \<Rightarrow>
          if \<not> ok getResponse then (False, st1)
          else (case body_json getResponse of
                  None \<Rightarrow> (False, st1)
                | Some doc \<Rightarrow>
                    (case j_fields doc of
                       None \<Rightarrow> (False, st1)
                     | Some flds \<Rightarrow>
                         if length flds > 1 then (False, st1)
                         else (case flds of
                                 [] \<Rightarrow> (False, st1)
                               | field0 # _ \<Rightarrow>
                                   (let timestamp = formatTimestamp date;
                                        html = pdf_reference_html request timestamp fileId;
                                        currentContent = content_or_empty (field_content field0);
                                        updatedContent = currentContent @ html
                                    in case fetchWithTimeout srv
                                              \<lparr>req_method = PUT,
                                               req_url = document_url serverUrl documentId,
                                               req_apiKey = accessToken,
                                               req_body = UpdateFieldJson (field_id field0) updatedContent\<rparr> st1 of
                                         (Inl e, st2) \<Rightarrow> (False, st2)
                                       | (Inr updateResponse, st2) \<Rightarrow>
                                           if \<not> ok updateResponse then (False, st2)
                                           else (True, st2))))))"

text \<open>
  The try block of \<^verbatim>\<open>clipPdf\<close>. The promise of the whole operation settles only if
  the upload does.
\<close>

definition clipPdf_try ::
  "server \<Rightarrow> print_reply \<Rightarrow> js_date \<Rightarrow> clip_request \<Rightarrow> bg_state
     \<Rightarrow> (js_error + clip_result) settled \<times> bg_state" where
  "clipPdf_try srv reply date request st =
     (if \<not> truthy_str (session_serverUrl st) \<or> \<not> truthy_str (session_accessToken st)
      then (Settled (Inr (Failure ''Not authenticated. Please reconnect.'')), st)
      else
        (let serverUrl = the (session_serverUrl st); accessToken = the (session_accessToken st)
         in case generatePdfFromTab reply of
              None \<Rightarrow> (Settled (Inr (Failure ''Failed to generate PDF from page'')), st)
            | Some pdfData \<Rightarrow>
                (case resolve_target srv serverUrl accessToken (targetDoc request) st of
                   (Inl e, st1) \<Rightarrow> (Settled (Inl e), st1)
                 | (Inr (Inl result), st1) \<Rightarrow> (Settled (Inr result), st1)
                 | (Inr (Inr (documentId, globalId)), st1) \<Rightarrow>
                     (let fileName = sanitizeFilename
                            (the (or_else (sourceTitle request) (Some ''page''))) @ ''.pdf''
                      in case uploadPdfToRSpace srv serverUrl accessToken pdfData fileName st1 of
                           (NeverSettles, st2) \<Rightarrow> (NeverSettles, st2)
                         | (Settled None, st2) \<Rightarrow> (Settled (Inr (Failure ''Failed to upload PDF file'')), st2)
                         | (Settled (Some fileId), st2) \<Rightarrow>
                             (case linkFileToDocument srv date serverUrl accessToken documentId
                                     fileId request st2 of
                                (False, st3) \<Rightarrow> (Settled (Inr (Failure ''Failed to link PDF to document'')), st3)
                              | (True, st3) \<Rightarrow>
                                  (Settled (Inr (Success documentId globalId)),
                                   st3\<lparr>documentsCache := empty_cache\<rparr>))))))"

definition clipPdf_request ::
  "server \<Rightarrow> print_reply \<Rightarrow> js_date \<Rightarrow> clip_request \<Rightarrow> bg_state \<Rightarrow> clip_result settled \<times> bg_state" where
  "clipPdf_request srv reply date request st =
     (case clipPdf_try srv reply date request st of
        (NeverSettles, st') \<Rightarrow> (NeverSettles, st')
      | (Settled (Inr result), st') \<Rightarrow> (Settled result, st')
      | (Settled (Inl error), st') \<Rightarrow>
          (if err_message error = ''Request timeout''
           then (Settled (Failure ''Request timeout. Please try again.''), st')
           else (Settled (Failure (''An error occurred while clipping PDF: '' @ err_message error)), st')))"

section \<open>Request deduplication (activeRequests)\<close>

text \<open>
  \<^verbatim>\<open>getDocuments\<close>, \<^verbatim>\<open>clipContent\<close> and \<^verbatim>\<open>clipPdf\<close> share one wrapper around
  their asynchronous bodies:
  \<^verbatim>\<open>if (activeRequests.has(cacheKey)) return activeRequests.get(cacheKey);
  const requestPromise = (async () => { try { ... } finally { activeRequests.delete(cacheKey); } })();
  activeRequests.set(cacheKey, requestPromise); return requestPromise;\<close>
  The body suspends at its first \<^verbatim>\<open>await\<close> (the read of the session storage), so the
  promise is registered before the body goes on, and the \<^verbatim>\<open>finally\<close> block runs when
  the body completes. The service worker runs one step at a time; its steps are the calls of
  the three functions and the completions of the bodies in flight. A promise is its number.
\<close>

datatype operation = GetDocuments int | ClipContent clip_request | ClipPdf clip_request

fun cacheKey :: "operation \<Rightarrow> string" where
  "cacheKey (GetDocuments pageNumber) = ''documents_'' @ show_int pageNumber"
| "cacheKey (ClipContent request) = ''clipContent''"
| "cacheKey (ClipPdf request) = ''clipPdf''"

text \<open>
  The map \<^verbatim>\<open>activeRequests\<close>, the bodies started and not yet completed (promise and
  operation), every body ever started (oldest first), and the values of the settled
  promises.
\<close>

record 'r registry =
  activeRequests :: "string \<rightharpoonup> nat"
  in_flight :: "(nat \<times> operation) list"
  started :: "operation list"
  settled_value :: "nat \<rightharpoonup> 'r"

definition empty_registry :: "'r registry" where
  "empty_registry = \<lparr>activeRequests = Map.empty, in_flight = [], started = [], settled_value = Map.empty\<rparr>"

text \<open>A call: the promise handed to the caller and the registry after the call.\<close>

definition call_operation :: "operation \<Rightarrow> 'r registry \<Rightarrow> nat \<times> 'r registry" where
  "call_operation op reg =
     (case activeRequests reg (cacheKey op) of
        Some p \<Rightarrow> (p, reg)
      | None \<Rightarrow>
          (let requestPromise = length (started reg)
           in (requestPromise,
               reg\<lparr>activeRequests := (activeRequests reg)(cacheKey op \<mapsto> requestPromise),
                   in_flight := in_flight reg @ [(requestPromise, op)],
                   started := started reg @ [op]\<rparr>)))"

text \<open>
  The body behind promise \<open>p\<close> completes with the value \<open>r\<close> (a success or a failure
  result): the \<^verbatim>\<open>finally\<close> block deletes the key and the promise settles. Nothing
  happens for a promise that is not in flight.
\<close>

definition complete_operation :: "nat \<Rightarrow> 'r \<Rightarrow> 'r registry \<Rightarrow> 'r registry" where
  "complete_operation p r reg =
     (case map_of (in_flight reg) p of
        None \<Rightarrow> reg
      | Some op \<Rightarrow>
          reg\<lparr>activeRequests := (activeRequests reg)(cacheKey op := None),
              in_flight := filter (\<lambda>e. fst e \<noteq> p) (in_flight reg),
              settled_value := (settled_value reg)(p \<mapsto> r)\<rparr>)"

datatype 'r event = Call operation | Complete nat 'r

fun step :: "'r event \<Rightarrow> 'r registry \<Rightarrow> 'r registry" where
  "step (Call op) reg = snd (call_operation op reg)"
| "step (Complete p r) reg = complete_operation p r reg"

definition run :: "'r event list \<Rightarrow> 'r registry \<Rightarrow> 'r registry" where
  "run evs reg = foldl (\<lambda>acc e. step e acc) reg evs"

text \<open>The bodies in flight under a key.\<close>

definition in_flight_for :: "string \<Rightarrow> 'r registry \<Rightarrow> (nat \<times> operation) list" where
  "in_flight_for key reg = filter (\<lambda>e. cacheKey (snd e) = key) (in_flight reg)"

text \<open>
  What holds of the registry in every reachable state: the promises and the keys in flight
  are distinct, the map holds exactly the keys in flight with their promises, and a settled
  promise is no longer in flight.
\<close>

definition registry_inv :: "'r registry \<Rightarrow> bool" where
  "registry_inv reg =
     (distinct (map fst (in_flight reg))
      \<and> distinct (map (\<lambda>e. cacheKey (snd e)) (in_flight reg))
      \<and> (\<forall>p op. (p, op) \<in> set (in_flight reg) \<longrightarrow>
             p < length (started reg) \<and> activeRequests reg (cacheKey op) = Some p)
      \<and> (\<forall>k p. activeRequests reg k = Some p \<longrightarrow>
             (\<exists>op. (p, op) \<in> set (in_flight reg) \<and> cacheKey op = k))
      \<and> (\<forall>p. p \<in> dom (settled_value reg) \<longrightarrow>
             p < length (started reg) \<and> p \<notin> fst ` set (in_flight reg)))"

section \<open>The service worker: calls, suspensions and completions\<close>

text \<open>
  \<^verbatim>\<open>getDocuments\<close>, \<^verbatim>\<open>clipContent\<close> and \<^verbatim>\<open>clipPdf\<close> as the listener calls
  them: the wrapper, then the body, which is suspended at its awaits while other calls and
  bodies run. The worker is the background state, the registry of the wrapper, and for
  each body in flight where it is suspended: at the read of the session storage (its first
  await), or, for a list body, at the network with the outcome the request will have.
  The cache is read and written at these points only: a list body reads it when it resumes
  from the storage read and fills it when it resumes from the network; a clip resets it in
  the same step in which it returns.
\<close>

datatype op_result = DocsResult docs_result | ClipResult clip_result

datatype body_phase = AwaitingStorage | AwaitingReply "js_error + http_response" | NeverReturning

record worker =
  wk_state :: bg_state
  wk_registry :: "op_result registry"
  wk_phase :: "nat \<rightharpoonup> body_phase"

definition idle_worker :: "bg_state \<Rightarrow> worker" where
  "idle_worker st = \<lparr>wk_state = st, wk_registry = empty_registry, wk_phase = Map.empty\<rparr>"

text \<open>
  What each of the three functions does when it is called, up to the first await of its
  body: with the key registered it returns the registered promise; otherwise it starts the
  body, which suspends at the storage read, registers the promise and returns it.
\<close>

definition call_wrapped :: "operation \<Rightarrow> worker \<Rightarrow> nat \<times> worker" where
  "call_wrapped op w =
     (case activeRequests (wk_registry w) (cacheKey op) of
        Some requestPromise \<Rightarrow> (requestPromise, w)
      | None \<Rightarrow>
          (case call_operation op (wk_registry w) of
             (requestPromise, registry') \<Rightarrow>
               (requestPromise,
                w\<lparr>wk_registry := registry',
                   wk_phase := (wk_phase w)(requestPromise \<mapsto> AwaitingStorage)\<rparr>)))"

definition getDocuments :: "int \<Rightarrow> worker \<Rightarrow> nat \<times> worker" where
  "getDocuments pageNumber w = call_wrapped (GetDocuments pageNumber) w"

definition clipContent :: "clip_request \<Rightarrow> worker \<Rightarrow> nat \<times> worker" where
  "clipContent request w = call_wrapped (ClipContent request) w"

definition clipPdf :: "clip_request \<Rightarrow> worker \<Rightarrow> nat \<times> worker" where
  "clipPdf request w = call_wrapped (ClipPdf request) w"

text \<open>A body returns: its \<^verbatim>\<open>finally\<close> block deletes the key and its promise settles.\<close>

definition settle :: "nat \<Rightarrow> op_result \<Rightarrow> worker \<Rightarrow> worker" where
  "settle q r w = w\<lparr>wk_registry := complete_operation q r (wk_registry w),
                     wk_phase := (wk_phase w)(q := None)\<rparr>"

fun body_page :: "operation \<Rightarrow> int option" where
  "body_page (GetDocuments pageNumber) = Some pageNumber"
| "body_page (ClipContent request) = None"
| "body_page (ClipPdf request) = None"

fun body_clip :: "operation \<Rightarrow> clip_request option" where
  "body_clip (GetDocuments pageNumber) = None"
| "body_clip (ClipContent request) = Some request"
| "body_clip (ClipPdf request) = None"

fun body_pdf :: "operation \<Rightarrow> clip_request option" where
  "body_pdf (GetDocuments pageNumber) = None"
| "body_pdf (ClipContent request) = None"
| "body_pdf (ClipPdf request) = Some request"

text \<open>The operation of the body behind a promise in flight.\<close>

definition body_of :: "worker \<Rightarrow> nat \<Rightarrow> operation option" where
  "body_of w q = map_of (in_flight (wk_registry w)) q"

definition list_body :: "worker \<Rightarrow> nat \<Rightarrow> int option" where
  "list_body w q = (case body_of w q of None \<Rightarrow> None | Some op \<Rightarrow> body_page op)"

definition clip_body :: "worker \<Rightarrow> nat \<Rightarrow> clip_request option" where
  "clip_body w q = (case body_of w q of None \<Rightarrow> None | Some op \<Rightarrow> body_clip op)"

definition pdf_body :: "worker \<Rightarrow> nat \<Rightarrow> clip_request option" where
  "pdf_body w q = (case body_of w q of None \<Rightarrow> None | Some op \<Rightarrow> body_pdf op)"

text \<open>
  The body of \<^verbatim>\<open>getDocuments\<close> from the outcome of its request to its return: the rest
  of the try block and the catch. \<open>stored_at\<close> is \<^verbatim>\<open>Date.now()\<close> when the cache is
  filled.
\<close>

definition getDocuments_receive ::
  "int \<Rightarrow> int \<Rightarrow> js_error + http_response \<Rightarrow> bg_state \<Rightarrow> docs_result \<times> bg_state" where
  "getDocuments_receive pageNumber stored_at outcome st =
     (case outcome of
        Inl error \<Rightarrow>
          (if err_message error = ''Request timeout'' then (docs_failure ''Request timeout'', st)
           else (docs_failure ''Failed to load documents'', st))
      | Inr response \<Rightarrow>
          if \<not> ok response then (docs_failure (getHttpErrorMessage response), st)
          else (case body_json response of
                  None \<Rightarrow> (docs_failure ''Failed to load documents'', st)
                | Some data \<Rightarrow>
                    (case j_documents data of
                       None \<Rightarrow> (docs_failure ''Failed to load documents'', st)
                     | Some docs \<Rightarrow>
                         (let pageSize = DEFAULT_PAGE_SIZE;
                              documents = map (\<lambda>doc. \<lparr>doc_id = doc_id doc,
                                  doc_globalId = doc_globalId doc, doc_name = doc_name doc\<rparr>) docs;
                              totalDocs = totalDocs_of (j_totalHits data) documents;
                              totalPages = totalPages_of totalDocs pageSize;
                              hasMore = (pageNumber + 1 < totalPages);
                              st' = (if pageNumber = 0
                                     then st\<lparr>documentsCache :=
                                            \<lparr>cache_data = Some documents,
                                             cache_timestamp = Some stored_at,
                                             cache_ttl = 5 * 60 * 1000,
                                             cache_totalPages = Some totalPages,
                                             cache_pageSize = pageSize\<rparr>\<rparr>
                                     else st)
                          in (\<lparr>res_success = True, res_error = None,
                               res_documents = documents, res_hasMore = hasMore\<rparr>, st')))))"

text \<open>
  A list body resumes from the storage read, at time \<open>now\<close>: without credentials it
  returns the failure, with a fresh cache (page 0) it returns the cached list, otherwise it
  sends its request and is suspended at the network.
\<close>

definition getDocuments_resume :: "server \<Rightarrow> nat \<Rightarrow> int \<Rightarrow> worker \<Rightarrow> worker" where
  "getDocuments_resume srv q now w =
     (case wk_phase w q of
        Some AwaitingStorage \<Rightarrow>
          (case list_body w q of
             None \<Rightarrow> w
           | Some pageNumber \<Rightarrow>
               (let st = wk_state w
                in if \<not> truthy_str (session_serverUrl st) \<or> \<not> truthy_str (session_accessToken st)
                   then settle q (DocsResult (docs_failure ''Not authenticated'')) w
                   else if pageNumber = 0 \<and> cache_fresh (documentsCache st) now
                   then settle q (DocsResult \<lparr>res_success = True, res_error = None,
                            res_documents = the (cache_data (documentsCache st)),
                            res_hasMore = more_than_one_page (cache_totalPages (documentsCache st))\<rparr>) w
                   else (case fetchWithTimeout srv (list_request st pageNumber) st of
                           (outcome, st') \<Rightarrow>
                             w\<lparr>wk_state := st',
                                wk_phase := (wk_phase w)(q \<mapsto> AwaitingReply outcome)\<rparr>)))
      | _ \<Rightarrow> w)"

text \<open>A list body resumes from the network and returns.\<close>

definition getDocuments_reply :: "nat \<Rightarrow> int \<Rightarrow> worker \<Rightarrow> worker" where
  "getDocuments_reply q stored_at w =
     (case wk_phase w q of
        Some (AwaitingReply outcome) \<Rightarrow>
          (case list_body w q of
             None \<Rightarrow> w
           | Some pageNumber \<Rightarrow>
               (case getDocuments_receive pageNumber stored_at outcome (wk_state w) of
                  (result, st') \<Rightarrow> settle q (DocsResult result) (w\<lparr>wk_state := st'\<rparr>)))
      | _ \<Rightarrow> w)"

text \<open>
  The body of a clip runs from the storage read to its return; the reset of the cache and
  the return are one step. A PDF clip whose upload never settles stays in flight for ever.
\<close>

definition clipContent_run :: "server \<Rightarrow> nat \<Rightarrow> js_date \<Rightarrow> worker \<Rightarrow> worker" where
  "clipContent_run srv q date w =
     (case wk_phase w q of
        Some AwaitingStorage \<Rightarrow>
          (case clip_body w q of
             None \<Rightarrow> w
           | Some request \<Rightarrow>
               (case clipContent_request srv date request (wk_state w) of
                  (result, st') \<Rightarrow> settle q (ClipResult result) (w\<lparr>wk_state := st'\<rparr>)))
      | _ \<Rightarrow> w)"

definition clipPdf_run :: "server \<Rightarrow> nat \<Rightarrow> print_reply \<Rightarrow> js_date \<Rightarrow> worker \<Rightarrow> worker" where
  "clipPdf_run srv q reply date w =
     (case wk_phase w q of
        Some AwaitingStorage \<Rightarrow>
          (case pdf_body w q of
             None \<Rightarrow> w
           | Some request \<Rightarrow>
               (case clipPdf_request srv reply date request (wk_state w) of
                  (Settled result, st') \<Rightarrow> settle q (ClipResult result) (w\<lparr>wk_state := st'\<rparr>)
                | (NeverSettles, st') \<Rightarrow>
                    w\<lparr>wk_state := st', wk_phase := (wk_phase w)(q \<mapsto> NeverReturning)\<rparr>))
      | _ \<Rightarrow> w)"

definition handleAuth_run :: "server \<Rightarrow> string \<Rightarrow> string \<Rightarrow> worker \<Rightarrow> worker" where
  "handleAuth_run srv serverUrl apiKey w = w\<lparr>wk_state := snd (handleAuth srv serverUrl apiKey (wk_state w))\<rparr>"

text \<open>The steps of the worker, and a run of steps.\<close>

datatype worker_event =
    GetDocumentsCalled int
  | ListResumed nat int
  | ListReplied nat int
  | ClipContentCalled clip_request
  | ClipContentRun nat js_date
  | ClipPdfCalled clip_request
  | ClipPdfRun nat print_reply js_date
  | AuthRun string string

fun worker_step :: "server \<Rightarrow> worker_event \<Rightarrow> worker \<Rightarrow> worker" where
  "worker_step srv (GetDocumentsCalled pageNumber) w = snd (getDocuments pageNumber w)"
| "worker_step srv (ListResumed q now) w = getDocuments_resume srv q now w"
| "worker_step srv (ListReplied q stored_at) w = getDocuments_reply q stored_at w"
| "worker_step srv (ClipContentCalled request) w = snd (clipContent request w)"
| "worker_step srv (ClipContentRun q date) w = clipContent_run srv q date w"
| "worker_step srv (ClipPdfCalled request) w = snd (clipPdf request w)"
| "worker_step srv (ClipPdfRun q reply date) w = clipPdf_run srv q reply date w"
| "worker_step srv (AuthRun serverUrl apiKey) w = handleAuth_run srv serverUrl apiKey w"

definition run_worker :: "server \<Rightarrow> worker_event list \<Rightarrow> worker \<Rightarrow> worker" where
  "run_worker srv evs w = foldl (\<lambda>acc e. worker_step srv e acc) w evs"

text \<open>The list requests among the requests sent so far.\<close>

definition list_requests_sent :: "worker \<Rightarrow> http_request list" where
  "list_requests_sent w =
     filter (\<lambda>r. req_method r = GET \<and> req_url r = documents_url (the (session_serverUrl (wk_state w))) 0)
       (network_log (wk_state w))"

section \<open>Observations on states and strings\<close>

text \<open>The requests a call has sent: those logged since the state it started from.\<close>

definition requests_since :: "bg_state \<Rightarrow> bg_state \<Rightarrow> http_request list" where
  "requests_since st st' = drop (length (network_log st)) (network_log st')"

definition puts_of :: "http_request list \<Rightarrow> http_request list" where
  "puts_of rs = filter (\<lambda>r. req_method r = PUT) rs"

text \<open>A string that escapeHtml leaves as it is.\<close>

definition plain :: "string \<Rightarrow> bool" where
  "plain s = (\<forall>c \<in> set s. esc_char c = [c])"

text \<open>
  The field content the end-to-end example expects, written out from its statement: the
  attribution block, no note, the captured HTML in an inner div.
\<close>

definition expected_clip :: "string \<Rightarrow> string" where
  "expected_clip ts =
     ''<div style='' @ dq @ ''border-left: 3px solid #4a90e2; padding-left: 12px; margin: 20px 0;'' @ dq @ ''>''
     @ ''<p style='' @ dq @ ''color: #666; font-size: 0.9em; margin: 0 0 8px 0;'' @ dq @ ''>''
     @ ''Clipped from <a href='' @ dq @ ''https://x.com'' @ dq @ ''>X</a> on '' @ ts @ ''</p>''
     @ ''<div><p>hi</p></div>'' @ ''</div>''"

section \<open>Example environments\<close>

text \<open>Concrete states, servers and requests at which the theorems below are instantiated.\<close>

definition authed_state :: bg_state where
  "authed_state = initial_state\<lparr>session_serverUrl := Some ''https://rspace.example'',
                                 session_accessToken := Some ''k3y''\<rparr>"

definition empty_json :: json_body where
  "empty_json = \<lparr>j_id = None, j_globalId = None, j_fields = None, j_documents = None,
                  j_totalHits = None, j_message = None, j_error = None, j_links_self = None\<rparr>"

definition json_response :: "nat \<Rightarrow> json_body \<Rightarrow> http_response" where
  "json_response code j = \<lparr>status = code, body_text = [], body_json = Some j\<rparr>"

text \<open>A server that answers every request with a list of no documents out of 120.\<close>

definition list_server :: server where
  "list_server history req =
     Reply 0 (json_response 200 (empty_json\<lparr>j_documents := Some [], j_totalHits := Some 120\<rparr>))"

text \<open>
  The API of the end-to-end example: creating gives document 42 (SD42), fetching gives the
  document with one field (number 7) of empty content, updating succeeds.
\<close>

definition mock_api :: server where
  "mock_api history req =
     (case req_method req of
        POST \<Rightarrow> Reply 0 (json_response 201 (empty_json\<lparr>j_id := Some 42, j_globalId := Some ''SD42''\<rparr>))
      | GET \<Rightarrow> Reply 0 (json_response 200
                 (empty_json\<lparr>j_id := Some 42, j_globalId := Some ''SD42'',
                    j_fields := Some [\<lparr>field_id = 7, field_content = Some []\<rparr>]\<rparr>))
      | PUT \<Rightarrow> Reply 0 (json_response 200 empty_json))"

definition notes_request :: clip_request where
  "notes_request = \<lparr>targetDoc = NewDocument ''Notes'', content_html = Some ''<p>hi</p>'',
                     clip_note = Some [], sourceUrl = Some ''https://x.com'',
                     sourceTitle = Some ''X''\<rparr>"

definition example_date :: js_date where
  "example_date = \<lparr>getFullYear = 2026, getMonth = 0, getDate = 8, getHours = 14, getMinutes = 35,
                    getSeconds = 22, getTimezoneOffset = - 60\<rparr>"

text \<open>The same API, serving a document of two fields.\<close>

definition form_api :: server where
  "form_api history req =
     (case req_method req of
        POST \<Rightarrow> Reply 0 (json_response 201 (empty_json\<lparr>j_id := Some 42, j_globalId := Some ''SD42''\<rparr>))
      | GET \<Rightarrow> Reply 0 (json_response 200
                 (empty_json\<lparr>j_id := Some 42, j_globalId := Some ''SD42'',
                    j_fields := Some [\<lparr>field_id = 7, field_content = Some []\<rparr>,
                                      \<lparr>field_id = 8, field_content = Some []\<rparr>]\<rparr>))
      | PUT \<Rightarrow> Reply 0 (json_response 200 empty_json))"

text \<open>A reply of the content script with PDF data, and a clip into the existing document 42.\<close>

definition pdf_reply :: print_reply where
  "pdf_reply = PrintResult (Some ''data:application/pdf;base64,JVBERi0='') None"

definition existing_request :: clip_request where
  "existing_request = notes_request\<lparr>targetDoc := ExistingDocument (Some 42) (Some ''SD42'')\<rparr>"

text \<open>
  A page with a selection, and a browser whose parser gives the selected paragraph back and
  whose URL resolution fails: enough for a page whose selection can be captured.
\<close>

definition example_page :: page where
  "example_page = \<lparr>getSelection = Some \<lparr>sel_toString = ''hi'',
                                              sel_cloneContents = [Element ''p'' [] [Text ''hi'']]\<rparr>,
                    documentElement = Element ''html'' [] [Element ''body'' [] [Element ''p'' [] [Text ''hi'']]],
                    quirks_mode = False,
                    location_href = ''https://x.com'', document_title = ''X''\<rparr>"

definition example_browser :: browser where
  "example_browser = \<lparr>parseHtml = (\<lambda>h. if h = ''<p>hi</p>'' then [Element ''p'' [] [Text ''hi'']] else [Text h]),
                       resolveUrl = (\<lambda>u. None)\<rparr>"

text \<open>The example API with a files endpoint that never answers.\<close>

definition silent_upload_api :: server where
  "silent_upload_api history req =
     (case req_body req of FileFormData blob name \<Rightarrow> NoReply | _ \<Rightarrow> mock_api history req)"

text \<open>The example API where fetching a document never answers, and where it fails at once.\<close>

definition silent_document_api :: server where
  "silent_document_api history req =
     (if req_method req = GET then NoReply else mock_api history req)"

definition failing_document_api :: server where
  "failing_document_api history req =
     (if req_method req = GET then NetworkFailure 0 else mock_api history req)"

definition upload_request :: http_request where
  "upload_request = \<lparr>req_method = POST, req_url = ''https://rspace.example/api/v1/files'',
                      req_apiKey = ''k3y'',
                      req_body = FileFormData ''data:application/pdf;base64,JVBERi0='' ''X.pdf''\<rparr>"

section \<open>Properties of escapeHtml\<close>

lemma replace_char_Nil [simp]: "replace_char c rep [] = []"
  by (simp add: replace_char_def)

lemma replace_char_Cons:
  "replace_char c rep (x # xs) = (if x = c then rep else [x]) @ replace_char c rep xs"
  by (simp add: replace_char_def)

lemma replace_char_append:
  "replace_char c rep (xs @ ys) = replace_char c rep xs @ replace_char c rep ys"
  by (simp add: replace_char_def)

lemma escape_chain_single_pass:
  "replace_char (CHR 0x27) ''&#039;''
     (replace_char (CHR 0x22) ''&quot;''
       (replace_char (CHR ''>'') ''&gt;''
         (replace_char (CHR ''<'') ''&lt;''
           (replace_char (CHR ''&'') ''&amp;'' s)))) = concat (map esc_char s)"
proof (induction s)
  case Nil
  show ?case by simp
next
  case (Cons c s)
  have step: "replace_char (CHR 0x27) ''&#039;''
     (replace_char (CHR 0x22) ''&quot;''
       (replace_char (CHR ''>'') ''&gt;''
         (replace_char (CHR ''<'') ''&lt;''
           (replace_char (CHR ''&'') ''&amp;'' [c])))) = esc_char c"
    by (simp add: replace_char_Cons esc_char_def)
  have "replace_char (CHR ''&'') ''&amp;'' (c # s)
          = replace_char (CHR ''&'') ''&amp;'' [c] @ replace_char (CHR ''&'') ''&amp;'' s"
    by (simp add: replace_char_Cons)
  then show ?case
    using step Cons.IH by (simp only: replace_char_append concat.simps list.map)
qed

lemma escapeHtml_single_pass:
  "escapeHtml text = (case text of None \<Rightarrow> [] | Some s \<Rightarrow> concat (map esc_char s))"
  by (cases "text") (auto simp: escapeHtml_def truthy_str_def escape_chain_single_pass)

lemma content_escapeHtml_eq: "content_escapeHtml text = escapeHtml text"
  by (simp add: content_escapeHtml_def escapeHtml_def)

lemma esc_char_no_markup:
  "CHR ''<'' \<notin> set (esc_char c)" "CHR ''>'' \<notin> set (esc_char c)"
  "CHR 0x22 \<notin> set (esc_char c)" "CHR 0x27 \<notin> set (esc_char c)"
  by (auto simp: esc_char_def)

lemma amps_esc_char_append:
  "amps_start_entity rest \<Longrightarrow> amps_start_entity (esc_char c @ rest)"
  by (simp add: esc_char_def html_entities_def)

lemma amps_concat_esc: "amps_start_entity (concat (map esc_char s))"
  by (induction s) (simp_all add: amps_esc_char_append)

text \<open>
  C10. For every input, the result of escapeHtml (both copies) contains none of the characters
  less-than, greater-than, double quote and single quote, and every ampersand of the result
  starts one of the entities \<^verbatim>\<open>&amp; &lt; &gt; &quot; &#039;\<close>; an empty or a missing
  input gives the empty string.
\<close>

theorem escapeHtml_output_safe:
  "CHR ''<'' \<notin> set (escapeHtml text) \<and> CHR ''>'' \<notin> set (escapeHtml text)
   \<and> CHR 0x22 \<notin> set (escapeHtml text) \<and> CHR 0x27 \<notin> set (escapeHtml text)
   \<and> amps_start_entity (escapeHtml text)
   \<and> content_escapeHtml text = escapeHtml text
   \<and> escapeHtml None = [] \<and> escapeHtml (Some []) = []"
proof -
  have "CHR ''<'' \<notin> set (escapeHtml text)" "CHR ''>'' \<notin> set (escapeHtml text)"
       "CHR 0x22 \<notin> set (escapeHtml text)" "CHR 0x27 \<notin> set (escapeHtml text)"
    using esc_char_no_markup by (auto simp: escapeHtml_single_pass split: option.splits)
  moreover have "amps_start_entity (escapeHtml text)"
    by (simp add: escapeHtml_single_pass amps_concat_esc split: option.splits)
  moreover have "escapeHtml None = []" "escapeHtml (Some []) = []"
    by (simp_all add: escapeHtml_def truthy_str_def)
  ultimately show ?thesis by (simp add: content_escapeHtml_eq)
qed

theorem escapeHtml_output_safe_witness:
  "escapeHtml (Some (''a<b>&'' @ dq @ sq)) = ''a&lt;b&gt;&amp;&quot;&#039;''
   \<and> CHR ''<'' \<notin> set (escapeHtml (Some (''a<b>&'' @ dq @ sq)))
   \<and> amps_start_entity (escapeHtml (Some (''a<b>&'' @ dq @ sq)))"
  using escapeHtml_output_safe [of "Some (''a<b>&'' @ dq @ sq)"]
  by (simp add: escapeHtml_def truthy_str_def replace_char_def dq_def sq_def)

section \<open>Pagination of the PDF\<close>

lemma pagination_loop_three:
  assumes u: "0 < u" and step: "pdfHeight - MARGIN_MM * 2 = u"
  shows "pagination_loop pdfHeight w (2.5 * u) (2.5 * u - u) pdf =
         Some (addImage (addPage (addImage (addPage pdf) MARGIN_MM (MARGIN_MM - u) w (2.5 * u)))
                 MARGIN_MM (MARGIN_MM - 2 * u) w (2.5 * u))"
proof -
  have a: "2.5 * u - u > 0" "2.5 * u - u - u > 0" "\<not> (2.5 * u - u - u - u > 0)"
    using u by simp_all
  have e1: "2.5 * u - u - 2.5 * u + MARGIN_MM = MARGIN_MM - u" by simp
  have e2: "2.5 * u - u - u - 2.5 * u + MARGIN_MM = MARGIN_MM - 2 * u" by simp
  show ?thesis
    apply (subst pagination_loop.simps)
    apply (simp only: a if_True e1 step)
    apply (subst pagination_loop.simps)
    apply (simp only: a if_True e2 step)
    apply (subst pagination_loop.simps)
    apply (simp only: a if_False)
    done
qed

text \<open>
  C7. For a canvas whose scaled image height is 2.5 times the usable height of a page (the
  page height minus twice the 10 mm margin), the layout returns a document of exactly three
  pages, and page k (k = 0, 1, 2) holds the one image at the vertical offset margin minus k
  times the usable height.
\<close>

theorem printPageToPdf_three_pages:
  assumes "0 < canvas_width"
    and "0 < usable_height pdfHeight"
    and "imgHeight_of pdfWidth canvas_width canvas_height = 2.5 * usable_height pdfHeight"
  shows "\<exists>pdf. printPageToPdf_layout pdfWidth pdfHeight canvas_width canvas_height = Some pdf
           \<and> length pdf = 3
           \<and> page_offsets pdf = [[MARGIN_MM],
                                  [MARGIN_MM - usable_height pdfHeight],
                                  [MARGIN_MM - 2 * usable_height pdfHeight]]"
proof -
  define u where "u = usable_height pdfHeight"
  have pos: "0 < u" using assms(2) by (simp add: u_def)
  have step: "pdfHeight - MARGIN_MM * 2 = u" by (simp add: u_def usable_height_def)
  have h: "canvas_height * (pdfWidth - MARGIN_MM * 2) / canvas_width = 2.5 * u"
    using assms(3) by (simp add: imgHeight_of_def imgWidth_of_def u_def)
  have "printPageToPdf_layout pdfWidth pdfHeight canvas_width canvas_height =
        pagination_loop pdfHeight (pdfWidth - MARGIN_MM * 2) (2.5 * u) (2.5 * u - u)
          (addImage new_jsPDF MARGIN_MM MARGIN_MM (pdfWidth - MARGIN_MM * 2) (2.5 * u))"
    by (simp only: printPageToPdf_layout_def Let_def h step)
  also have "\<dots> = Some (addImage (addPage (addImage (addPage
                 (addImage new_jsPDF MARGIN_MM MARGIN_MM (pdfWidth - MARGIN_MM * 2) (2.5 * u)))
                 MARGIN_MM (MARGIN_MM - u) (pdfWidth - MARGIN_MM * 2) (2.5 * u)))
                 MARGIN_MM (MARGIN_MM - 2 * u) (pdfWidth - MARGIN_MM * 2) (2.5 * u))"
    by (rule pagination_loop_three [OF pos step])
  finally have "printPageToPdf_layout pdfWidth pdfHeight canvas_width canvas_height =
      Some (addImage (addPage (addImage (addPage
                 (addImage new_jsPDF MARGIN_MM MARGIN_MM (pdfWidth - MARGIN_MM * 2) (2.5 * u)))
                 MARGIN_MM (MARGIN_MM - u) (pdfWidth - MARGIN_MM * 2) (2.5 * u)))
                 MARGIN_MM (MARGIN_MM - 2 * u) (pdfWidth - MARGIN_MM * 2) (2.5 * u))" .
  then show ?thesis
    by (simp add: addImage_def addPage_def new_jsPDF_def page_offsets_def u_def)
qed

theorem printPageToPdf_three_pages_witness:
  "(0::real) < 380 \<and> 0 < usable_height 297 \<and> imgHeight_of 210 380 1385 = 2.5 * usable_height 297
   \<and> (\<exists>pdf. printPageToPdf_layout 210 297 380 1385 = Some pdf \<and> length pdf = 3
         \<and> page_offsets pdf = [[10], [-267], [-544]])"
proof -
  have h1: "(0::real) < 380" by simp
  have h2: "0 < usable_height 297" by (simp add: usable_height_def MARGIN_MM_def)
  have h3: "imgHeight_of 210 380 1385 = 2.5 * usable_height 297"
    by (simp add: imgHeight_of_def imgWidth_of_def usable_height_def MARGIN_MM_def)
  from printPageToPdf_three_pages [OF h1 h2 h3] h1 h2 h3 show ?thesis
    by (simp add: usable_height_def MARGIN_MM_def)
qed

section \<open>Listing documents\<close>

lemma hasMore_formula:
  "(p + 1 < totalPages_of t DEFAULT_PAGE_SIZE) = ((p + 1) * 50 < t)"
proof -
  have "(p + 1 < \<lceil>real_of_int t / 50\<rceil>) = (real_of_int (p + 1) < real_of_int t / 50)"
    by (rule less_ceiling_iff)
  also have "\<dots> = (real_of_int (p + 1) * 50 < real_of_int t)"
    by (simp add: pos_less_divide_eq)
  also have "\<dots> = ((p + 1) * 50 < t)"
    by (metis of_int_less_iff of_int_mult of_int_numeral)
  finally show ?thesis by (simp add: totalPages_of_def DEFAULT_PAGE_SIZE_def)
qed

lemma fetchWithTimeout_reply:
  assumes "srv (network_log st) req = Reply d response" and "d < default_timeout"
  shows "fetchWithTimeout srv req st = (Inr response, log_request req st)"
  using assms by (simp add: fetchWithTimeout_def fetchWithTimeout_ms_def fetch_abortable_def)

lemma fetchWithTimeout_log:
  "network_log (snd (fetchWithTimeout srv req st)) = network_log st @ [req]"
  by (simp add: fetchWithTimeout_def fetchWithTimeout_ms_def fetch_abortable_def log_request_def
      split: net_outcome.splits)

lemma fetchWithTimeout_state:
  "snd (fetchWithTimeout srv req st) = log_request req st"
  by (simp add: fetchWithTimeout_def fetchWithTimeout_ms_def fetch_abortable_def
      split: net_outcome.splits)

text \<open>
  C6. For every page number p and every list response with a positive totalHits t,
  getDocuments(p), when it is not served from the cache, succeeds with hasMore equal to
  (p + 1) * 50 < t.
\<close>

theorem getDocuments_hasMore:
  assumes "truthy_str (session_serverUrl st)" and "truthy_str (session_accessToken st)"
    and "\<not> (p = 0 \<and> cache_fresh (documentsCache st) now)"
    and "srv (network_log st)
           \<lparr>req_method = GET, req_url = documents_url (the (session_serverUrl st)) p,
            req_apiKey = the (session_accessToken st), req_body = NoBody\<rparr> = Reply d response"
    and "d < default_timeout" and "ok response"
    and "body_json response = Some data" and "j_documents data = Some docs"
    and "j_totalHits data = Some t" and "0 < t"
  shows "res_success (fst (getDocuments_request srv p now stored_at st))
         \<and> res_hasMore (fst (getDocuments_request srv p now stored_at st)) = ((p + 1) * 50 < t)"
proof -
  have f: "fetchWithTimeout srv
           \<lparr>req_method = GET, req_url = documents_url (the (session_serverUrl st)) p,
            req_apiKey = the (session_accessToken st), req_body = NoBody\<rparr> st
        = (Inr response, log_request \<lparr>req_method = GET,
             req_url = documents_url (the (session_serverUrl st)) p,
             req_apiKey = the (session_accessToken st), req_body = NoBody\<rparr> st)"
    using assms(4,5) by (rule fetchWithTimeout_reply)
  have t: "totalDocs_of (Some t) ds = t" for ds
    using assms(10) by (simp add: totalDocs_of_def)
  show ?thesis
    using assms(1,2,3,6,7,8,9)
    by (auto simp add: getDocuments_request_def getDocuments_try_def f Let_def t hasMore_formula)
qed

section \<open>Timestamps are left alone by escapeHtml\<close>

lemma plain_append [simp]: "plain (xs @ ys) = (plain xs \<and> plain ys)"
  by (auto simp: plain_def)

lemma plain_Cons [simp]: "plain (c # cs) = (esc_char c = [c] \<and> plain cs)"
  by (auto simp: plain_def)

lemma plain_Nil [simp]: "plain []"
  by (simp add: plain_def)

lemma plain_concat_esc: "plain s \<Longrightarrow> concat (map esc_char s) = s"
  by (induction s) (auto simp: plain_def)

lemma plain_digit: "d < 10 \<Longrightarrow> esc_char (digit_char d) = [digit_char d]"
proof -
  assume "d < 10"
  then have "d = 0 \<or> d = 1 \<or> d = 2 \<or> d = 3 \<or> d = 4 \<or> d = 5 \<or> d = 6 \<or> d = 7 \<or> d = 8 \<or> d = 9" by arith
  then show ?thesis by (elim disjE) (simp_all add: esc_char_def digit_char_def)
qed

lemma plain_show_nat: "plain (show_nat n)"
proof (induction n rule: show_nat.induct)
  case (1 n)
  show ?case
  proof (cases "n < 10")
    case True
    then show ?thesis by (subst show_nat.simps) (simp add: plain_digit)
  next
    case False
    then have "plain (show_nat (n div 10))" using 1 by simp
    moreover have "plain [digit_char (n mod 10)]" by (simp add: plain_digit)
    ultimately show ?thesis using False by (subst show_nat.simps) simp
  qed
qed

lemma plain_replicate_zero: "plain (replicate n (CHR ''0''))"
  by (induction n) (simp_all add: esc_char_def)

lemma plain_padStart2: "plain s \<Longrightarrow> plain (padStart2 s)"
  by (simp add: padStart2_def plain_replicate_zero)

lemma plain_show_int: "plain (show_int i)"
  by (simp add: show_int_def plain_show_nat esc_char_def)

lemma plain_formatTimestamp: "plain (formatTimestamp date)"
  by (simp add: formatTimestamp_def Let_def plain_show_int plain_padStart2 plain_show_nat esc_char_def)

lemma escapeHtml_formatTimestamp: "escapeHtml (Some (formatTimestamp date)) = formatTimestamp date"
  by (simp add: escapeHtml_single_pass plain_concat_esc plain_formatTimestamp)

section \<open>Clipping into a document\<close>

lemma createDocument_state:
  "snd (createDocument srv serverUrl accessToken title st) =
   log_request \<lparr>req_method = POST, req_url = serverUrl @ ''/api/v1/documents'',
                req_apiKey = accessToken,
                req_body = CreateDocumentJson title ''web-clipper'' [[]]\<rparr> st"
proof -
  let ?req = "\<lparr>req_method = POST, req_url = serverUrl @ ''/api/v1/documents'',
                req_apiKey = accessToken,
                req_body = CreateDocumentJson title ''web-clipper'' [[]]\<rparr>"
  obtain r st' where f: "fetchWithTimeout srv ?req st = (r, st')" by (cases "fetchWithTimeout srv ?req st")
  then have "st' = log_request ?req st" using fetchWithTimeout_state [of srv ?req st] by simp
  then show ?thesis
    by (simp add: createDocument_def f Let_def split: sum.splits option.splits)
qed

lemma resolve_target_state:
  "snd (resolve_target srv serverUrl accessToken target st) =
     (case target of
        NewDocument title \<Rightarrow>
          log_request \<lparr>req_method = POST, req_url = serverUrl @ ''/api/v1/documents'',
                req_apiKey = accessToken,
                req_body = CreateDocumentJson title ''web-clipper'' [[]]\<rparr> st
      | ExistingDocument documentId globalId \<Rightarrow> st)"
proof (cases target)
  case (NewDocument title)
  obtain r st' where c: "createDocument srv serverUrl accessToken title st = (r, st')"
    by (cases "createDocument srv serverUrl accessToken title st")
  then have "st' = log_request \<lparr>req_method = POST, req_url = serverUrl @ ''/api/v1/documents'',
                req_apiKey = accessToken,
                req_body = CreateDocumentJson title ''web-clipper'' [[]]\<rparr> st"
    using createDocument_state [of srv serverUrl accessToken title st] by simp
  then show ?thesis using NewDocument c
    by (simp add: resolve_target_def split: sum.splits clip_result.splits)
next
  case (ExistingDocument documentId globalId)
  then show ?thesis by (simp add: resolve_target_def)
qed

lemma resolve_target_requests:
  "puts_of (requests_since st (snd (resolve_target srv serverUrl accessToken target st))) = []"
  by (cases target) (simp_all add: resolve_target_state requests_since_def puts_of_def log_request_def)

lemma resolve_target_log_length:
  "length (network_log st) \<le> length (network_log (snd (resolve_target srv serverUrl accessToken target st)))"
  by (cases target) (simp_all add: resolve_target_state log_request_def)

lemma resolve_target_prefix:
  "\<exists>rs. network_log (snd (resolve_target srv serverUrl accessToken target st)) = network_log st @ rs
        \<and> puts_of rs = []"
  by (cases target) (simp_all add: resolve_target_state log_request_def puts_of_def)

text \<open>
  C3. For every authenticated clipContent call whose target resolves and whose fetch of the
  target document returns a document with zero fields or with more than one field, the
  result is the failure with the corresponding message, the call sends no PUT request, and
  the documents cache is as before.
\<close>

theorem clipContent_ineligible_document:
  assumes "truthy_str (session_serverUrl st)" and "truthy_str (session_accessToken st)"
    and "resolve_target srv (the (session_serverUrl st)) (the (session_accessToken st))
           (targetDoc request) st = (Inr (Inr (documentId, globalId)), st1)"
    and "srv (network_log st1)
           \<lparr>req_method = GET, req_url = document_url (the (session_serverUrl st)) documentId,
            req_apiKey = the (session_accessToken st), req_body = NoBody\<rparr> = Reply d getResponse"
    and "d < default_timeout" and "ok getResponse"
    and "body_json getResponse = Some doc" and "j_fields doc = Some flds"
    and "length flds \<noteq> 1"
  shows "fst (clipContent_request srv date request st) =
           Failure (if flds = [] then no_fields_error else multiple_fields_error)
         \<and> puts_of (requests_since st (snd (clipContent_request srv date request st))) = []
         \<and> documentsCache (snd (clipContent_request srv date request st)) = documentsCache st"
proof -
  let ?get = "\<lparr>req_method = GET, req_url = document_url (the (session_serverUrl st)) documentId,
            req_apiKey = the (session_accessToken st), req_body = NoBody\<rparr>"
  have f: "fetchWithTimeout srv ?get st1 = (Inr getResponse, log_request ?get st1)"
    using assms(4,5) by (rule fetchWithTimeout_reply)
  have cases: "flds = [] \<or> length flds > 1" using assms(9) by (cases flds) auto
  have res: "clipContent_request srv date request st =
        (Failure (if flds = [] then no_fields_error else multiple_fields_error), log_request ?get st1)"
    using assms(1,2,3,6,7,8) cases
    by (auto simp add: clipContent_request_def clipContent_try_def Let_def f)
  have st1: "st1 = snd (resolve_target srv (the (session_serverUrl st)) (the (session_accessToken st))
           (targetDoc request) st)"
    using assms(3) by simp
  obtain rs where rs: "network_log st1 = network_log st @ rs" "puts_of rs = []"
    using resolve_target_prefix [of srv "the (session_serverUrl st)" "the (session_accessToken st)"
        "targetDoc request" st] st1 by auto
  have cache: "documentsCache st1 = documentsCache st"
    unfolding st1 by (cases "targetDoc request") (simp_all add: resolve_target_state log_request_def)
  show ?thesis
    using rs cache by (simp add: res requests_since_def log_request_def puts_of_def)
qed

text \<open>The post-assembly pass leaves the captured paragraph of the example as it is.\<close>

lemma sanitize_hi: "sanitizeClippedHtml (Some ''<p>hi</p>'') = ''<p>hi</p>''"
  by code_simp

lemma formatClippedContent_notes:
  "formatClippedContent notes_request (formatTimestamp date) = expected_clip (formatTimestamp date)"
  by (simp add: formatClippedContent_def Let_def notes_request_def truthy_str_def sanitize_hi
      escapeHtml_formatTimestamp expected_clip_def attribution_div_open_def attribution_p_open_def)
     (simp add: escapeHtml_def truthy_str_def replace_char_def)

text \<open>
  C2. clipContent for a new document "Notes", the content \<^verbatim>\<open><p>hi</p>\<close>, an empty note,
  the source https://x.com titled X, with a session, against an API whose create returns
  id 42 and global id SD42, whose fetch returns the document with exactly one field of empty
  content and whose update succeeds: the requests sent are the POST, the GET and one PUT
  whose field content is the attribution block (Clipped from the link on the timestamp), no
  note paragraph, and the captured HTML in an inner div; the result is the success with
  document 42 and SD42.
\<close>

theorem clipContent_end_to_end:
  assumes auth: "truthy_str (session_serverUrl st)" "truthy_str (session_accessToken st)"
    and create: "\<And>h r. req_method r = POST \<Longrightarrow> srv h r = Reply d1 createResponse"
      "d1 < default_timeout" "ok createResponse" "body_json createResponse = Some newDoc"
      "j_id newDoc = Some 42" "j_globalId newDoc = Some ''SD42''"
    and fetch: "\<And>h r. req_method r = GET \<Longrightarrow> srv h r = Reply d2 getResponse"
      "d2 < default_timeout" "ok getResponse" "body_json getResponse = Some doc"
      "j_fields doc = Some [fld]" "field_content fld = Some []"
    and update: "\<And>h r. req_method r = PUT \<Longrightarrow> srv h r = Reply d3 updateResponse"
      "d3 < default_timeout" "ok updateResponse"
  shows "fst (clipContent_request srv date notes_request st) = Success (Some 42) (Some ''SD42'')
     \<and> requests_since st (snd (clipContent_request srv date notes_request st)) =
         [\<lparr>req_method = POST, req_url = the (session_serverUrl st) @ ''/api/v1/documents'',
           req_apiKey = the (session_accessToken st),
           req_body = CreateDocumentJson ''Notes'' ''web-clipper'' [[]]\<rparr>,
          \<lparr>req_method = GET, req_url = the (session_serverUrl st) @ ''/api/v1/documents/42'',
           req_apiKey = the (session_accessToken st), req_body = NoBody\<rparr>,
          \<lparr>req_method = PUT, req_url = the (session_serverUrl st) @ ''/api/v1/documents/42'',
           req_apiKey = the (session_accessToken st),
           req_body = UpdateFieldJson (field_id fld) (expected_clip (formatTimestamp date))\<rparr>]"
proof -
  have f: "fetchWithTimeout srv r s =
      (case req_method r of POST \<Rightarrow> (Inr createResponse, log_request r s)
        | GET \<Rightarrow> (Inr getResponse, log_request r s)
        | PUT \<Rightarrow> (Inr updateResponse, log_request r s))" for r s
    using create(1,2) fetch(1,2) update(1,2)
    by (cases "req_method r") (simp_all add: fetchWithTimeout_reply)
  have url: "document_url u (Some 42) = u @ ''/api/v1/documents/42''" for u
    by (simp add: document_url_def show_id_def show_int_def) (simp add: show_nat.simps digit_char_def)
  have rt: "resolve_target srv (the (session_serverUrl st)) (the (session_accessToken st))
      (targetDoc notes_request) st
      = (Inr (Inr (Some 42, Some ''SD42'')),
         log_request \<lparr>req_method = POST, req_url = the (session_serverUrl st) @ ''/api/v1/documents'',
           req_apiKey = the (session_accessToken st),
           req_body = CreateDocumentJson ''Notes'' ''web-clipper'' [[]]\<rparr> st)"
    using create(3-6) by (simp add: resolve_target_def notes_request_def createDocument_def f)
  show ?thesis
    using auth fetch(3-6) update(3)
    by (simp add: clipContent_request_def clipContent_try_def Let_def rt f url content_or_empty_def
        formatClippedContent_notes requests_since_def log_request_def)
qed

section \<open>The claims at the example environments\<close>

lemma authed_truthy:
  "truthy_str (session_serverUrl authed_state)" "truthy_str (session_accessToken authed_state)"
  by (simp_all add: authed_state_def initial_state_def truthy_str_def)

theorem getDocuments_hasMore_witness:
  "truthy_str (session_serverUrl authed_state) \<and> truthy_str (session_accessToken authed_state)
   \<and> \<not> cache_fresh (documentsCache authed_state) 0
   \<and> (0::int) < 120
   \<and> res_success (fst (getDocuments_request list_server 1 0 0 authed_state))
   \<and> res_hasMore (fst (getDocuments_request list_server 1 0 0 authed_state)) = ((1 + 1) * 50 < (120::int))"
  using getDocuments_hasMore [of authed_state 1 0 list_server 0
      "json_response 200 (empty_json\<lparr>j_documents := Some [], j_totalHits := Some 120\<rparr>)"
      "empty_json\<lparr>j_documents := Some [], j_totalHits := Some 120\<rparr>" "[]" 120 0]
  by (simp add: authed_state_def initial_state_def truthy_str_def list_server_def json_response_def
      ok_def default_timeout_def CONFIG_API_TIMEOUT_MS_def empty_json_def cache_fresh_def empty_cache_def)

theorem clipContent_ineligible_document_witness:
  "truthy_str (session_serverUrl authed_state) \<and> truthy_str (session_accessToken authed_state)
   \<and> fst (clipContent_request form_api example_date notes_request authed_state) = Failure multiple_fields_error
   \<and> puts_of (requests_since authed_state
         (snd (clipContent_request form_api example_date notes_request authed_state))) = []
   \<and> length (requests_since authed_state
         (snd (clipContent_request form_api example_date notes_request authed_state))) = 2"
proof -
  let ?post = "\<lparr>req_method = POST, req_url = ''https://rspace.example'' @ ''/api/v1/documents'',
                req_apiKey = ''k3y'',
                req_body = CreateDocumentJson ''Notes'' ''web-clipper'' [[]]\<rparr>"
  let ?st1 = "log_request ?post authed_state"
  let ?doc = "empty_json\<lparr>j_id := Some 42, j_globalId := Some ''SD42'',
                    j_fields := Some [\<lparr>field_id = 7, field_content = Some []\<rparr>,
                                      \<lparr>field_id = 8, field_content = Some []\<rparr>]\<rparr>"
  have timeout: "0 < default_timeout" by (simp add: default_timeout_def CONFIG_API_TIMEOUT_MS_def)
  have cr: "createDocument form_api ''https://rspace.example'' ''k3y'' ''Notes'' authed_state
      = (Inr (Success (Some 42) (Some ''SD42'')), ?st1)"
    by (simp add: createDocument_def fetchWithTimeout_def fetchWithTimeout_ms_def fetch_abortable_def
        form_api_def timeout json_response_def ok_def empty_json_def)
  have rt: "resolve_target form_api (the (session_serverUrl authed_state))
      (the (session_accessToken authed_state)) (targetDoc notes_request) authed_state
      = (Inr (Inr (Some 42, Some ''SD42'')), ?st1)"
    using cr by (simp add: resolve_target_def notes_request_def authed_state_def initial_state_def)
  have get: "form_api (network_log ?st1)
           \<lparr>req_method = GET, req_url = document_url (the (session_serverUrl authed_state)) (Some 42),
            req_apiKey = the (session_accessToken authed_state), req_body = NoBody\<rparr>
           = Reply 0 (json_response 200 ?doc)"
    by (simp add: form_api_def)
  have th: "fst (clipContent_request form_api example_date notes_request authed_state) =
           Failure (if [\<lparr>field_id = 7, field_content = Some []\<rparr>,
                        \<lparr>field_id = 8, field_content = Some []\<rparr>] = [] then no_fields_error else multiple_fields_error)
         \<and> puts_of (requests_since authed_state (snd (clipContent_request form_api example_date notes_request authed_state))) = []
         \<and> documentsCache (snd (clipContent_request form_api example_date notes_request authed_state)) = documentsCache authed_state"
    by (rule clipContent_ineligible_document [OF authed_truthy rt get timeout, where doc = ?doc])
       (simp_all add: json_response_def ok_def empty_json_def)
  have len: "length (requests_since authed_state
         (snd (clipContent_request form_api example_date notes_request authed_state))) = 2"
    using rt
    by (simp add: clipContent_request_def clipContent_try_def truthy_str_def Let_def
        fetchWithTimeout_def fetchWithTimeout_ms_def fetch_abortable_def form_api_def timeout
        json_response_def ok_def empty_json_def requests_since_def log_request_def
        authed_state_def initial_state_def)
  show ?thesis using th len authed_truthy by simp
qed

theorem clipContent_end_to_end_witness:
  "truthy_str (session_serverUrl authed_state) \<and> truthy_str (session_accessToken authed_state)
   \<and> fst (clipContent_request mock_api example_date notes_request authed_state)
       = Success (Some 42) (Some ''SD42'')
   \<and> map req_body (requests_since authed_state
         (snd (clipContent_request mock_api example_date notes_request authed_state)))
       = [CreateDocumentJson ''Notes'' ''web-clipper'' [[]], NoBody,
          UpdateFieldJson 7 (expected_clip ''2026-01-08 14:35:22 GMT+1'')]"
proof -
  let ?new = "empty_json\<lparr>j_id := Some 42, j_globalId := Some ''SD42''\<rparr>"
  let ?doc = "empty_json\<lparr>j_id := Some 42, j_globalId := Some ''SD42'',
                    j_fields := Some [\<lparr>field_id = 7, field_content = Some []\<rparr>]\<rparr>"
  have timeout: "0 < default_timeout" by (simp add: default_timeout_def CONFIG_API_TIMEOUT_MS_def)
  have ts: "formatTimestamp example_date = ''2026-01-08 14:35:22 GMT+1''"
    by code_simp
  have th: "fst (clipContent_request mock_api example_date notes_request authed_state)
        = Success (Some 42) (Some ''SD42'')
     \<and> requests_since authed_state (snd (clipContent_request mock_api example_date notes_request authed_state)) =
         [\<lparr>req_method = POST, req_url = the (session_serverUrl authed_state) @ ''/api/v1/documents'',
           req_apiKey = the (session_accessToken authed_state),
           req_body = CreateDocumentJson ''Notes'' ''web-clipper'' [[]]\<rparr>,
          \<lparr>req_method = GET, req_url = the (session_serverUrl authed_state) @ ''/api/v1/documents/42'',
           req_apiKey = the (session_accessToken authed_state), req_body = NoBody\<rparr>,
          \<lparr>req_method = PUT, req_url = the (session_serverUrl authed_state) @ ''/api/v1/documents/42'',
           req_apiKey = the (session_accessToken authed_state),
           req_body = UpdateFieldJson (field_id \<lparr>field_id = 7, field_content = Some []\<rparr>)
              (expected_clip (formatTimestamp example_date))\<rparr>]"
    by (rule clipContent_end_to_end [OF authed_truthy, where ?d1.0 = 0 and ?d2.0 = 0 and ?d3.0 = 0
          and createResponse = "json_response 201 ?new" and newDoc = ?new
          and getResponse = "json_response 200 ?doc" and doc = ?doc
          and updateResponse = "json_response 200 empty_json"])
       (simp_all add: mock_api_def timeout json_response_def ok_def empty_json_def)
  show ?thesis using th authed_truthy by (simp add: ts)
qed

section \<open>The documents cache\<close>

















section \<open>Request deduplication\<close>

lemma inv_empty: "registry_inv empty_registry"
  by (simp add: registry_inv_def empty_registry_def)

lemma inv_call: 
  assumes "registry_inv reg"
  shows "registry_inv (snd (call_operation op reg))"
proof (cases "activeRequests reg (cacheKey op)")
  case (Some p)
  then show ?thesis using assms by (simp add: call_operation_def)
next
  case None
  have nokey: "cacheKey op \<notin> (\<lambda>e. cacheKey (snd e)) ` set (in_flight reg)"
  proof
    assume "cacheKey op \<in> (\<lambda>e. cacheKey (snd e)) ` set (in_flight reg)"
    then obtain p op' where "(p, op') \<in> set (in_flight reg)" "cacheKey op' = cacheKey op" by auto
    then have "activeRequests reg (cacheKey op) = Some p"
      using assms unfolding registry_inv_def by metis
    then show False using None by simp
  qed
  have fresh: "length (started reg) \<notin> fst ` set (in_flight reg)"
    using assms unfolding registry_inv_def by force
  have step: "snd (call_operation op reg) =
     reg\<lparr>activeRequests := (activeRequests reg)(cacheKey op \<mapsto> length (started reg)),
         in_flight := in_flight reg @ [(length (started reg), op)],
         started := started reg @ [op]\<rparr>"
    using None by (simp add: call_operation_def Let_def)
  show ?thesis
    unfolding step registry_inv_def
  proof (intro conjI)
    show "distinct (map fst (in_flight (reg\<lparr>activeRequests := (activeRequests reg)(cacheKey op \<mapsto> length (started reg)),
         in_flight := in_flight reg @ [(length (started reg), op)],
         started := started reg @ [op]\<rparr>)))"
      using assms fresh by (simp add: registry_inv_def)
    show "distinct (map (\<lambda>e. cacheKey (snd e)) (in_flight (reg\<lparr>activeRequests := (activeRequests reg)(cacheKey op \<mapsto> length (started reg)),
         in_flight := in_flight reg @ [(length (started reg), op)],
         started := started reg @ [op]\<rparr>)))"
      using assms nokey by (simp add: registry_inv_def)
    show "\<forall>p opa. (p, opa) \<in> set (in_flight (reg\<lparr>activeRequests := (activeRequests reg)(cacheKey op \<mapsto> length (started reg)),
         in_flight := in_flight reg @ [(length (started reg), op)],
         started := started reg @ [op]\<rparr>)) \<longrightarrow>
        p < length (started (reg\<lparr>activeRequests := (activeRequests reg)(cacheKey op \<mapsto> length (started reg)),
         in_flight := in_flight reg @ [(length (started reg), op)],
         started := started reg @ [op]\<rparr>)) \<and>
        activeRequests (reg\<lparr>activeRequests := (activeRequests reg)(cacheKey op \<mapsto> length (started reg)),
         in_flight := in_flight reg @ [(length (started reg), op)],
         started := started reg @ [op]\<rparr>) (cacheKey opa) = Some p"
      using assms nokey by (auto simp: registry_inv_def less_Suc_eq image_iff) 
    show "\<forall>k p. activeRequests (reg\<lparr>activeRequests := (activeRequests reg)(cacheKey op \<mapsto> length (started reg)),
         in_flight := in_flight reg @ [(length (started reg), op)],
         started := started reg @ [op]\<rparr>) k = Some p \<longrightarrow>
        (\<exists>opa. (p, opa) \<in> set (in_flight (reg\<lparr>activeRequests := (activeRequests reg)(cacheKey op \<mapsto> length (started reg)),
         in_flight := in_flight reg @ [(length (started reg), op)],
         started := started reg @ [op]\<rparr>)) \<and> cacheKey opa = k)"
      using assms unfolding registry_inv_def by (simp split: if_splits) blast
    show "\<forall>p. p \<in> dom (settled_value (reg\<lparr>activeRequests := (activeRequests reg)(cacheKey op \<mapsto> length (started reg)),
         in_flight := in_flight reg @ [(length (started reg), op)],
         started := started reg @ [op]\<rparr>)) \<longrightarrow>
        p < length (started (reg\<lparr>activeRequests := (activeRequests reg)(cacheKey op \<mapsto> length (started reg)),
         in_flight := in_flight reg @ [(length (started reg), op)],
         started := started reg @ [op]\<rparr>)) \<and>
        p \<notin> fst ` set (in_flight (reg\<lparr>activeRequests := (activeRequests reg)(cacheKey op \<mapsto> length (started reg)),
         in_flight := in_flight reg @ [(length (started reg), op)],
         started := started reg @ [op]\<rparr>))"
      using assms by (auto simp: registry_inv_def less_Suc_eq)
  qed
qed

lemma inv_complete:
  assumes "registry_inv reg"
  shows "registry_inv (complete_operation p r reg)"
proof (cases "map_of (in_flight reg) p")
  case None
  then show ?thesis using assms by (simp add: complete_operation_def)
next
  case (Some op)
  have mem: "(p, op) \<in> set (in_flight reg)" using Some by (rule map_of_SomeD)
  have d1: "distinct (map fst (in_flight reg))"
    and d2: "distinct (map (\<lambda>e. cacheKey (snd e)) (in_flight reg))"
    and a1: "\<And>q o'. (q, o') \<in> set (in_flight reg) \<Longrightarrow>
                q < length (started reg) \<and> activeRequests reg (cacheKey o') = Some q"
    and a2: "\<And>k q. activeRequests reg k = Some q \<Longrightarrow>
                \<exists>o'. (q, o') \<in> set (in_flight reg) \<and> cacheKey o' = k"
    and a3: "\<And>q. q \<in> dom (settled_value reg) \<Longrightarrow>
                q < length (started reg) \<and> q \<notin> fst ` set (in_flight reg)"
    using assms unfolding registry_inv_def by blast+
  have key_unique: "q = p" if "(q, o') \<in> set (in_flight reg)" "cacheKey o' = cacheKey op" for q o'
    using a1 [OF that(1)] a1 [OF mem] that(2) by simp
  let ?reg' = "reg\<lparr>activeRequests := (activeRequests reg)(cacheKey op := None),
              in_flight := filter (\<lambda>e. fst e \<noteq> p) (in_flight reg),
              settled_value := (settled_value reg)(p \<mapsto> r)\<rparr>"
  have step: "complete_operation p r reg = ?reg'"
    using Some by (simp add: complete_operation_def)
  have c1: "distinct (map fst (in_flight ?reg'))"
    using d1 by (simp add: distinct_map_filter)
  have c2: "distinct (map (\<lambda>e. cacheKey (snd e)) (in_flight ?reg'))"
    using d2 by (simp add: distinct_map_filter)
  have c3: "\<forall>q o'. (q, o') \<in> set (in_flight ?reg') \<longrightarrow>
             q < length (started ?reg') \<and> activeRequests ?reg' (cacheKey o') = Some q"
  proof (intro allI impI)
    fix q o' assume "(q, o') \<in> set (in_flight ?reg')"
    then have m: "(q, o') \<in> set (in_flight reg)" and ne: "q \<noteq> p" by auto
    have "cacheKey o' \<noteq> cacheKey op" using key_unique [OF m] ne by blast
    then show "q < length (started ?reg') \<and> activeRequests ?reg' (cacheKey o') = Some q"
      using a1 [OF m] by simp
  qed
  have c4: "\<forall>k q. activeRequests ?reg' k = Some q \<longrightarrow>
             (\<exists>o'. (q, o') \<in> set (in_flight ?reg') \<and> cacheKey o' = k)"
  proof (intro allI impI)
    fix k q assume h: "activeRequests ?reg' k = Some q"
    then have k: "k \<noteq> cacheKey op" and act: "activeRequests reg k = Some q"
      by (auto split: if_splits)
    obtain o' where o': "(q, o') \<in> set (in_flight reg)" "cacheKey o' = k" using a2 [OF act] by blast
    have "q \<noteq> p"
    proof
      assume "q = p"
      then have "o' = op" using d1 o'(1) mem by (meson eq_key_imp_eq_value)
      then show False using o'(2) k by simp
    qed
    then show "\<exists>o'. (q, o') \<in> set (in_flight ?reg') \<and> cacheKey o' = k"
      using o' by auto
  qed
  have c5: "\<forall>q. q \<in> dom (settled_value ?reg') \<longrightarrow>
             q < length (started ?reg') \<and> q \<notin> fst ` set (in_flight ?reg')"
  proof (intro allI impI)
    fix q assume "q \<in> dom (settled_value ?reg')"
    then consider "q = p" | "q \<in> dom (settled_value reg)" by (auto split: if_splits)
    then show "q < length (started ?reg') \<and> q \<notin> fst ` set (in_flight ?reg')"
    proof cases
      case 1
      then show ?thesis using a1 [OF mem] by auto
    next
      case 2
      then show ?thesis using a3 [OF 2] by auto
    qed
  qed
  show ?thesis unfolding step registry_inv_def using c1 c2 c3 c4 c5 by blast
qed

lemma inv_step: "registry_inv reg \<Longrightarrow> registry_inv (step e reg)"
  by (cases e) (simp_all add: inv_call inv_complete)

lemma inv_run: "registry_inv reg \<Longrightarrow> registry_inv (run evs reg)"
  unfolding run_def by (induction evs arbitrary: reg) (simp_all add: inv_step)

lemma inv_reachable: "registry_inv (run evs empty_registry)"
  by (rule inv_run [OF inv_empty])

lemma settled_step:
  assumes "registry_inv reg" "settled_value reg p = Some r"
  shows "settled_value (step e reg) p = Some r"
proof (cases e)
  case (Call op)
  then show ?thesis using assms(2) by (simp add: call_operation_def Let_def split: option.splits)
next
  case (Complete q r')
  have "p \<notin> fst ` set (in_flight reg)"
    using assms unfolding registry_inv_def by blast
  then have "map_of (in_flight reg) p = None" by (simp add: map_of_eq_None_iff)
  then have "q \<noteq> p \<or> map_of (in_flight reg) q = None" by auto
  then show ?thesis using Complete assms(2)
    by (auto simp: complete_operation_def split: option.splits)
qed

lemma settled_run:
  "registry_inv reg \<Longrightarrow> settled_value reg p = Some r \<Longrightarrow> settled_value (run evs reg) p = Some r"
  unfolding run_def
  by (induction evs arbitrary: reg) (simp_all add: inv_step settled_step)

lemma in_flight_for_le1:
  assumes "registry_inv reg"
  shows "length (in_flight_for key reg) \<le> 1"
proof -
  have d: "distinct (map (\<lambda>e. cacheKey (snd e)) (in_flight reg))"
    using assms by (simp add: registry_inv_def)
  have "length (filter (\<lambda>e. cacheKey (snd e) = key) xs) \<le> 1"
    if "distinct (map (\<lambda>e. cacheKey (snd e)) xs)" for xs :: "(nat \<times> operation) list"
    using that
  proof (induction xs)
    case Nil
    then show ?case by simp
  next
    case (Cons x xs)
    show ?case
    proof (cases "cacheKey (snd x) = key")
      case True
      then have "key \<notin> (\<lambda>e. cacheKey (snd e)) ` set xs" using Cons.prems by auto
      then have "filter (\<lambda>e. cacheKey (snd e) = key) xs = []"
        by (auto simp: filter_empty_conv)
      then show ?thesis using True by simp
    next
      case False
      then show ?thesis using Cons by simp
    qed
  qed
  then show ?thesis using d by (simp add: in_flight_for_def)
qed

lemma second_call_same_promise:
  assumes "cacheKey op' = cacheKey op"
  shows "call_operation op' (snd (call_operation op reg)) = (fst (call_operation op reg), snd (call_operation op reg))"
  using assms by (auto simp: call_operation_def Let_def split: option.splits)

text \<open>
  C4. In every state the service worker can reach by calls and completions: (1) a call
  whose key (clipContent, clipPdf, documents_ and the page) has an operation in flight
  returns the promise of that operation and changes nothing, so no second body and no second
  network sequence is started; (2) a second call under the key of a call just made gets
  the same promise; (3) when the body of an operation in flight completes, with whatever
  result, the entry of its key is removed, no operation is in flight under the key, and the
  promise has that result; (4) at most one operation is in flight under a key; (5) a
  settled promise keeps its value, so every caller holding it reads the same result.
\<close>

theorem deduplication:
  assumes "reg = run evs empty_registry"
  shows "((p, op') \<in> set (in_flight reg) \<and> cacheKey op' = cacheKey op
            \<longrightarrow> call_operation op reg = (p, reg))
       \<and> (cacheKey op2 = cacheKey op1
            \<longrightarrow> call_operation op2 (snd (call_operation op1 reg))
                  = (fst (call_operation op1 reg), snd (call_operation op1 reg)))
       \<and> ((q, op3) \<in> set (in_flight reg)
            \<longrightarrow> activeRequests (complete_operation q r reg) (cacheKey op3) = None
                \<and> in_flight_for (cacheKey op3) (complete_operation q r reg) = []
                \<and> settled_value (complete_operation q r reg) q = Some r)
       \<and> length (in_flight_for key reg) \<le> 1
       \<and> (settled_value reg p4 = Some r4 \<longrightarrow> settled_value (run evs' reg) p4 = Some r4)"
proof -
  have inv: "registry_inv reg" unfolding assms by (rule inv_reachable)
  have a1: "\<And>q o'. (q, o') \<in> set (in_flight reg) \<Longrightarrow> activeRequests reg (cacheKey o') = Some q"
    using inv unfolding registry_inv_def by blast
  have d1: "distinct (map fst (in_flight reg))" using inv by (simp add: registry_inv_def)
  have c1: "(p, op') \<in> set (in_flight reg) \<and> cacheKey op' = cacheKey op
            \<longrightarrow> call_operation op reg = (p, reg)"
  proof
    assume h: "(p, op') \<in> set (in_flight reg) \<and> cacheKey op' = cacheKey op"
    then have "activeRequests reg (cacheKey op) = Some p" using a1 [of p op'] by simp
    then show "call_operation op reg = (p, reg)" by (simp add: call_operation_def)
  qed
  have c2: "cacheKey op2 = cacheKey op1
            \<longrightarrow> call_operation op2 (snd (call_operation op1 reg))
                  = (fst (call_operation op1 reg), snd (call_operation op1 reg))"
    by (simp add: second_call_same_promise)
  have c3: "(q, op3) \<in> set (in_flight reg)
            \<longrightarrow> activeRequests (complete_operation q r reg) (cacheKey op3) = None
                \<and> in_flight_for (cacheKey op3) (complete_operation q r reg) = []
                \<and> settled_value (complete_operation q r reg) q = Some r"
  proof
    assume mem: "(q, op3) \<in> set (in_flight reg)"
    have m: "map_of (in_flight reg) q = Some op3" using d1 mem by simp
    have "fst e = q" if "e \<in> set (in_flight reg)" "cacheKey (snd e) = cacheKey op3" for e
      using a1 [of "fst e" "snd e"] a1 [OF mem] that by simp
    then have "filter (\<lambda>e. cacheKey (snd e) = cacheKey op3) (filter (\<lambda>e. fst e \<noteq> q) (in_flight reg)) = []"
      by (auto simp: filter_empty_conv)
    then show "activeRequests (complete_operation q r reg) (cacheKey op3) = None
                \<and> in_flight_for (cacheKey op3) (complete_operation q r reg) = []
                \<and> settled_value (complete_operation q r reg) q = Some r"
      by (simp add: complete_operation_def m in_flight_for_def)
  qed
  have c4: "length (in_flight_for key reg) \<le> 1" using inv by (rule in_flight_for_le1)
  have c5: "settled_value reg p4 = Some r4 \<longrightarrow> settled_value (run evs' reg) p4 = Some r4"
    using settled_run [OF inv] by blast
  show ?thesis using c1 c2 c3 c4 c5 by blast
qed

theorem deduplication_witness:
  "in_flight (run [Call (ClipContent notes_request)] (empty_registry :: clip_result registry))
     = [(0, ClipContent notes_request)]
   \<and> call_operation (ClipContent existing_request)
        (run [Call (ClipContent notes_request)] (empty_registry :: clip_result registry))
     = (0, run [Call (ClipContent notes_request)] empty_registry)
   \<and> started (run [Call (ClipContent notes_request), Call (ClipContent existing_request)]
        (empty_registry :: clip_result registry)) = [ClipContent notes_request]
   \<and> activeRequests (complete_operation 0 (Failure ''Request timeout. Please try again.'')
        (run [Call (ClipContent notes_request)] empty_registry)) ''clipContent'' = None
   \<and> settled_value (run [Complete 0 (Failure ''Request timeout. Please try again.''), Call (ClipContent existing_request)]
        (run [Call (ClipContent notes_request)] empty_registry)) 0
       = Some (Failure ''Request timeout. Please try again.'')"
proof -
  let ?reg = "run [Call (ClipContent notes_request)] (empty_registry :: clip_result registry)"
  have r: "?reg = \<lparr>activeRequests = [''clipContent'' \<mapsto> 0], in_flight = [(0, ClipContent notes_request)],
       started = [ClipContent notes_request], settled_value = Map.empty\<rparr>"
    by (simp add: run_def call_operation_def empty_registry_def)
  have mem: "(0, ClipContent notes_request) \<in> set (in_flight ?reg)" by (simp add: r)
  note th = deduplication [OF refl, where evs = "[Call (ClipContent notes_request)]"
      and p = 0 and op' = "ClipContent notes_request" and op = "ClipContent existing_request"
      and q = 0 and ?op3.0 = "ClipContent notes_request"
      and r = "Failure ''Request timeout. Please try again.''"
      and ?p4.0 = 0 and ?r4.0 = "Failure ''Request timeout. Please try again.''"
      and evs' = "[]"]
  have c1: "call_operation (ClipContent existing_request) ?reg = (0, ?reg)"
    using th mem by simp
  have c3: "activeRequests (complete_operation 0 (Failure ''Request timeout. Please try again.'') ?reg)
      ''clipContent'' = None"
    using th mem by simp
  have s2: "started (run [Call (ClipContent notes_request), Call (ClipContent existing_request)]
        (empty_registry :: clip_result registry)) = [ClipContent notes_request]"
    by (simp add: run_def call_operation_def empty_registry_def)
  have s5: "settled_value (run [Complete 0 (Failure ''Request timeout. Please try again.''), Call (ClipContent existing_request)]
        ?reg) 0 = Some (Failure ''Request timeout. Please try again.'')"
    by (simp add: r) (simp add: run_def call_operation_def complete_operation_def)
  show ?thesis using c1 c3 s2 s5 r by simp
qed

section \<open>The getContent handler\<close>

text \<open>
  C9. For every getContent request whose contentType is missing or is not one of
  selection, full-page and url-only, the response is null, whatever the extraction would
  return: the handler does not consult it, and no such request is answered with a capture.
\<close>

theorem getContent_rejects_invalid:
  assumes "contentType \<notin> {Some ''selection'', Some ''full-page'', Some ''url-only''}"
  shows "getContent_handler extract contentType = None
         \<and> onMessage_getContent b pg contentType = None"
proof -
  have "\<not> truthy_str contentType \<or> the contentType \<notin> set VALID_CONTENT_TYPES"
    using assms by (cases contentType) (auto simp: truthy_str_def VALID_CONTENT_TYPES_def)
  then show ?thesis
    by (auto simp: getContent_handler_def onMessage_getContent_def)
qed

lemma run_sel: "extractContent example_browser example_page (Some ''pdf'')
      = Inr (Some \<lparr>cap_html = ''<p>hi</p>'', cap_text = ''hi''\<rparr>)"
  by code_simp

theorem getContent_rejects_invalid_witness:
  "Some ''pdf'' \<notin> {Some ''selection'', Some ''full-page'', Some ''url-only''}
   \<and> extractContent example_browser example_page (Some ''pdf'')
      = Inr (Some \<lparr>cap_html = ''<p>hi</p>'', cap_text = ''hi''\<rparr>)
   \<and> onMessage_getContent example_browser example_page (Some ''pdf'') = None
   \<and> onMessage_getContent example_browser example_page None = None
   \<and> onMessage_getContent example_browser example_page (Some ''selection'')
      = Some \<lparr>cap_html = ''<p>hi</p>'', cap_text = ''hi''\<rparr>"
proof -
  have a: "Some ''pdf'' \<notin> {Some ''selection'', Some ''full-page'', Some ''url-only''}" by simp
  have b: "None \<notin> {Some ''selection'', Some ''full-page'', Some ''url-only''}" by simp
  have c: "onMessage_getContent example_browser example_page (Some ''selection'')
      = Some \<lparr>cap_html = ''<p>hi</p>'', cap_text = ''hi''\<rparr>"
    by code_simp
  show ?thesis
    using getContent_rejects_invalid [OF a, of "extractContent example_browser example_page" example_browser example_page]
      getContent_rejects_invalid [OF b, of "extractContent example_browser example_page" example_browser example_page]
      a c run_sel by simp
qed

section \<open>The structural pass\<close>

text \<open>
  After \<^verbatim>\<open>cleanHtml\<close>'s three passes over the parsed fragment no element of the deny-list
  is left, and every attribute left has a name of the allow-list, none beginning with
  \<^verbatim>\<open>on\<close>. The defect shown in the next section lies in the string pass.
\<close>

lemma all_elements_mono:
  "(\<And>t attrs. P t attrs \<Longrightarrow> Q t attrs) \<Longrightarrow> all_elements P ns \<Longrightarrow> all_elements Q ns"
  by (induction P ns rule: all_elements.induct) auto

lemma all_elements_conjI:
  "all_elements P ns \<Longrightarrow> all_elements Q ns \<Longrightarrow> all_elements (\<lambda>t attrs. P t attrs \<and> Q t attrs) ns"
  by (induction P ns rule: all_elements.induct) auto

lemma all_elements_remove_elements:
  "all_elements P ns \<Longrightarrow> all_elements P (remove_elements tag ns)"
  by (induction tag ns rule: remove_elements.induct) auto

lemma remove_elements_no_tag:
  "all_elements (\<lambda>t attrs. t \<noteq> tag) (remove_elements tag ns)"
  by (induction tag ns rule: remove_elements.induct) auto

lemma remove_all_tags_none_left:
  "all_elements (\<lambda>t attrs. t \<notin> set seen) ns \<Longrightarrow>
   all_elements (\<lambda>t attrs. t \<notin> set seen \<and> t \<notin> set tags)
     (foldl (\<lambda>acc tag. remove_elements tag acc) ns tags)"
proof (induction tags arbitrary: ns seen)
  case Nil
  then show ?case by simp
next
  case (Cons tag tags)
  have a: "all_elements (\<lambda>t attrs. t \<notin> set seen) (remove_elements tag ns)"
    using Cons.prems by (rule all_elements_remove_elements)
  have b: "all_elements (\<lambda>t attrs. t \<noteq> tag) (remove_elements tag ns)"
    by (rule remove_elements_no_tag)
  have "all_elements (\<lambda>t attrs. t \<notin> set (tag # seen)) (remove_elements tag ns)"
    by (rule all_elements_mono [OF _ all_elements_conjI [OF a b]]) simp
  from Cons.IH [OF this]
  have "all_elements (\<lambda>t attrs. t \<notin> set (tag # seen) \<and> t \<notin> set tags)
     (foldl (\<lambda>acc tag. remove_elements tag acc) (remove_elements tag ns) tags)" .
  then show ?case
    by (simp only: foldl_Cons) (rule all_elements_mono, auto)
qed

lemma all_elements_True: "all_elements (\<lambda>t attrs. True) ns"
  by (induction "\<lambda>(t::string) (attrs::(string \<times> string) list). True" ns rule: all_elements.induct) auto

lemma remove_all_tags_clean:
  "all_elements (\<lambda>t attrs. t \<notin> set tags) (remove_all_tags tags ns)"
proof -
  have "all_elements (\<lambda>t attrs. t \<notin> set []) ns"
    by (simp add: all_elements_True)
  from remove_all_tags_none_left [OF this, of tags] show ?thesis
    by (simp add: remove_all_tags_def)
qed

lemma sanitize_elements_tags:
  "all_elements (\<lambda>t attrs. P t) ns \<Longrightarrow> all_elements (\<lambda>t attrs. P t) (sanitize_elements b ns)"
  by (induction b ns rule: sanitize_elements.induct) auto

lemma remove_empty_all:
  "all_elements P ns \<Longrightarrow> all_elements P (remove_empty ns)"
  by (induction ns rule: remove_empty.induct) auto

lemma clean_fragment_no_dangerous_element:
  "all_elements (\<lambda>t attrs. t \<notin> set dangerousTags) (clean_fragment b ns)"
  unfolding clean_fragment_def
  by (intro remove_empty_all sanitize_elements_tags remove_all_tags_clean)

lemma strip_fold:
  "foldl (\<lambda>acc a. if bad (fst a) then removeAttribute acc (fst a) else acc) acc xs
     = filter (\<lambda>x. \<not> (bad (fst x) \<and> fst x \<in> fst ` set xs)) acc"
proof (induction xs arbitrary: acc)
  case Nil
  then show ?case by simp
next
  case (Cons a xs)
  show ?case
    by (simp add: Cons.IH) (auto intro!: filter_cong)
qed

lemma strip_attributes_filter:
  "strip_attributes attrs =
     filter (\<lambda>x. \<not> (startsWith (fst x) ''on'' \<or> fst x \<notin> set safeAttrs)) attrs"
proof -
  have "strip_attributes attrs =
     filter (\<lambda>x. \<not> ((startsWith (fst x) ''on'' \<or> fst x \<notin> set safeAttrs) \<and> fst x \<in> fst ` set attrs)) attrs"
    unfolding strip_attributes_def
    by (rule strip_fold [where bad = "\<lambda>n. startsWith n ''on'' \<or> n \<notin> set safeAttrs"])
  also have "\<dots> = filter (\<lambda>x. \<not> (startsWith (fst x) ''on'' \<or> fst x \<notin> set safeAttrs)) attrs"
    by (rule filter_cong) auto
  finally show ?thesis .
qed

lemma safe_strip: "safe_attribute_names (strip_attributes attrs)"
  by (auto simp: safe_attribute_names_def strip_attributes_filter list_all_iff)

lemma safe_remove: "safe_attribute_names attrs \<Longrightarrow> safe_attribute_names (removeAttribute attrs n)"
  by (auto simp: safe_attribute_names_def list_all_iff)

lemma safe_set:
  "safe_attribute_names attrs \<Longrightarrow> n \<in> set safeAttrs \<Longrightarrow> \<not> startsWith n ''on''
     \<Longrightarrow> safe_attribute_names (setAttribute attrs n v)"
  by (induction attrs n v rule: setAttribute.induct) (auto simp: safe_attribute_names_def)

lemma safe_set_href: "safe_attribute_names attrs \<Longrightarrow> safe_attribute_names (setAttribute attrs ''href'' v)"
  by (rule safe_set) (simp_all add: safeAttrs_def startsWith_def)

lemma safe_set_src: "safe_attribute_names attrs \<Longrightarrow> safe_attribute_names (setAttribute attrs ''src'' v)"
  by (rule safe_set) (simp_all add: safeAttrs_def startsWith_def)

lemma safe_href: "safe_attribute_names attrs \<Longrightarrow> safe_attribute_names (sanitize_href b attrs)"
  unfolding sanitize_href_def Let_def
  by (auto simp del: removeAttribute.simps hasAttribute.simps getAttribute.simps
      intro: safe_remove safe_set_href safe_set_src split: option.splits)

lemma safe_src: "safe_attribute_names attrs \<Longrightarrow> safe_attribute_names (sanitize_src b attrs)"
  unfolding sanitize_src_def Let_def
  by (auto simp del: removeAttribute.simps hasAttribute.simps getAttribute.simps
      intro: safe_remove safe_set_href safe_set_src split: option.splits)

lemma safe_sanitize_attributes: "safe_attribute_names (sanitize_attributes b attrs)"
  unfolding sanitize_attributes_def by (intro safe_src safe_href safe_strip)

lemma sanitize_elements_attrs:
  "all_elements (\<lambda>t attrs. safe_attribute_names attrs) (sanitize_elements b ns)"
  by (induction b ns rule: sanitize_elements.induct) (auto simp: safe_sanitize_attributes)

lemma clean_fragment_safe_attributes:
  "all_elements (\<lambda>t attrs. safe_attribute_names attrs) (clean_fragment b ns)"
  unfolding clean_fragment_def
  by (intro remove_empty_all sanitize_elements_attrs)

section \<open>The sanitizer at nested patterns\<close>

lemma clean_text_paragraph:
  assumes "trim s \<noteq> []"
  shows "clean_fragment b [Element ''p'' [] [Text s]] = [Element ''p'' [] [Text s]]"
  using assms
  by (simp add: clean_fragment_def remove_all_tags_def dangerousTags_def sanitize_attributes_def
      strip_attributes_def sanitize_href_def sanitize_src_def is_empty_element_def)

lemma serialize_text_paragraph:
  assumes "escape_text s = s"
  shows "innerHTML ''div'' [Element ''p'' [] [Text s]] = ''<p>'' @ s @ ''</p>''"
  using assms by (simp add: innerHTML_def void_elements_def raw_text_elements_def)

lemma nested_js: "trim ''javajavascript:script:'' \<noteq> []" "escape_text ''javajavascript:script:'' = ''javajavascript:script:''"
  by code_simp+

lemma nested_vb: "trim ''vbvbscript:script:'' \<noteq> []" "escape_text ''vbvbscript:script:'' = ''vbvbscript:script:''"
  by code_simp+

lemma sanitize_nested_js: "sanitizeClippedHtml (Some ''<p>javajavascript:script:</p>'') = ''<p>javascript:</p>''"
  by code_simp

lemma sanitize_nested_vb: "sanitizeClippedHtml (Some ''<p>vbvbscript:script:</p>'') = ''<p>vbscript:</p>''"
  by code_simp

lemma contains_js: "contains_ci ''javascript:'' ''<p>javascript:</p>''"
  by code_simp

lemma contains_vb: "contains_ci ''vbscript:'' ''<p>vbscript:</p>''"
  by code_simp

text \<open>
  C1, at a failing input. The paragraph with the text \<^verbatim>\<open>javajavascript:script:\<close> passes the
  structural pass unchanged, and the post-assembly pass, which deletes each pattern in one
  sweep, joins the two halves around the deleted occurrence: the output contains
  \<^verbatim>\<open>javascript:\<close>. The same happens with \<^verbatim>\<open>vbvbscript:script:\<close>.
\<close>

theorem sanitizer_rebuilds_script_urls:
  "sanitizeClippedHtml (Some (innerHTML ''div''
      (clean_fragment b [Element ''p'' [] [Text ''javajavascript:script:'']]))) = ''<p>javascript:</p>''
   \<and> contains_ci ''javascript:'' ''<p>javascript:</p>''
   \<and> sanitizeClippedHtml (Some (innerHTML ''div''
      (clean_fragment b [Element ''p'' [] [Text ''vbvbscript:script:'']]))) = ''<p>vbscript:</p>''
   \<and> contains_ci ''vbscript:'' ''<p>vbscript:</p>''"
  by (simp add: clean_text_paragraph serialize_text_paragraph nested_js nested_vb
      sanitize_nested_js sanitize_nested_vb contains_js contains_vb)

lemma cleanHtml_rebuilds_javascript_url:
  assumes "parseHtml b ''<p>javajavascript:script:</p>'' = [Element ''p'' [] [Text ''javajavascript:script:'']]"
  shows "sanitizeClippedHtml (Some (cleanHtml b ''<p>javajavascript:script:</p>'')) = ''<p>javascript:</p>''"
  using assms
  by (simp add: cleanHtml_def clean_text_paragraph serialize_text_paragraph nested_js sanitize_nested_js)

text \<open>
  The same defect in an attribute: the href \<^verbatim>\<open>javasvbscript:cript:alert(1)\<close> is an absolute
  URL of an unknown scheme, which the structural pass keeps when the browser resolves it to
  itself; deleting \<^verbatim>\<open>vbscript:\<close> from it leaves a \<^verbatim>\<open>javascript:\<close> link.
\<close>

lemma sanitize_href_value:
  "sanitizeClippedHtml (Some (''<a href='' @ dq @ ''javasvbscript:cript:alert(1)'' @ dq @ ''>x</a>''))
     = ''<a href='' @ dq @ ''javascript:alert(1)'' @ dq @ ''>x</a>''"
  by code_simp

lemma serialize_link:
  "innerHTML ''div'' [Element ''a'' [(''href'', ''javasvbscript:cript:alert(1)'')] [Text ''x'']]
     = ''<a href='' @ dq @ ''javasvbscript:cript:alert(1)'' @ dq @ ''>x</a>''"
  by code_simp

lemma clean_link:
  assumes "resolveUrl b ''javasvbscript:cript:alert(1)'' = Some ''javasvbscript:cript:alert(1)''"
  shows "clean_fragment b [Element ''a'' [(''href'', ''javasvbscript:cript:alert(1)'')] [Text ''x'']]
   = [Element ''a'' [(''href'', ''javasvbscript:cript:alert(1)'')] [Text ''x'']]"
proof -
  have low: "trim (toLowerCase ''javasvbscript:cript:alert(1)'') = ''javasvbscript:cript:alert(1)''"
    by code_simp
  have t: "trim ''x'' \<noteq> []" by code_simp
  show ?thesis using assms
    by (simp add: clean_fragment_def remove_all_tags_def dangerousTags_def sanitize_attributes_def
        strip_attributes_def sanitize_href_def sanitize_src_def is_empty_element_def t low
        safeAttrs_def startsWith_def Let_def)
qed

lemma sanitizer_builds_javascript_href:
  assumes "parseHtml b (''<a href='' @ dq @ ''javasvbscript:cript:alert(1)'' @ dq @ ''>x</a>'')
             = [Element ''a'' [(''href'', ''javasvbscript:cript:alert(1)'')] [Text ''x'']]"
    and "resolveUrl b ''javasvbscript:cript:alert(1)'' = Some ''javasvbscript:cript:alert(1)''"
  shows "sanitizeClippedHtml (Some (cleanHtml b (''<a href='' @ dq @ ''javasvbscript:cript:alert(1)'' @ dq @ ''>x</a>'')))
     = ''<a href='' @ dq @ ''javascript:alert(1)'' @ dq @ ''>x</a>''"
  unfolding cleanHtml_def assms(1) clean_link [OF assms(2)] serialize_link
  by (rule sanitize_href_value)

section \<open>The timeout wrapper\<close>

text \<open>
  A request through \<^verbatim>\<open>fetchWithTimeout\<close> always settles: with the Request timeout
  error when the network is silent or answers after 30 seconds, with the network's own
  error when it fails earlier.
\<close>

lemma fetchWithTimeout_no_reply:
  "srv (network_log st) req = NoReply \<Longrightarrow> fst (fetchWithTimeout srv req st) = Inl RequestTimeout"
  by (simp add: fetchWithTimeout_def fetchWithTimeout_ms_def fetch_abortable_def AbortError_def)

lemma fetchWithTimeout_late_reply:
  "srv (network_log st) req = Reply d response \<Longrightarrow> 30000 \<le> d
     \<Longrightarrow> fst (fetchWithTimeout srv req st) = Inl RequestTimeout"
  by (simp add: fetchWithTimeout_def fetchWithTimeout_ms_def fetch_abortable_def AbortError_def
      default_timeout_def CONFIG_API_TIMEOUT_MS_def)

lemma fetchWithTimeout_network_failure:
  "srv (network_log st) req = NetworkFailure d \<Longrightarrow> d < 30000
     \<Longrightarrow> fst (fetchWithTimeout srv req st) = Inl FetchFailed"
  by (simp add: fetchWithTimeout_def fetchWithTimeout_ms_def fetch_abortable_def FetchFailed_def
      default_timeout_def CONFIG_API_TIMEOUT_MS_def)

section \<open>Time-outs of the PDF clip\<close>

text \<open>
  C8, at failing inputs. With a files endpoint that never answers, clipPdf never settles,
  where the wrapper on the same request gives the Request timeout error; and a time-out of
  the document fetch inside linkFileToDocument is reported with the same message as a
  network failure of that fetch.
\<close>

theorem pdf_clip_timeouts:
  "fst (clipPdf_request silent_upload_api pdf_reply example_date existing_request authed_state) = NeverSettles
   \<and> fst (fetchWithTimeout silent_upload_api upload_request authed_state) = Inl RequestTimeout
   \<and> fst (clipPdf_request silent_document_api pdf_reply example_date existing_request authed_state)
       = Settled (Failure ''Failed to link PDF to document'')
   \<and> fst (clipPdf_request failing_document_api pdf_reply example_date existing_request authed_state)
       = Settled (Failure ''Failed to link PDF to document'')"
  by code_simp

end
